theory Spec2Isabelle
  imports Main
begin

section \<open>Data model (schema/schema.ts, src/schema/stately_pb.d.ts, src/probe.ts)\<close>

text \<open>
  The enum \<open>RunnerStatus\<close> of the generated schema, with its zero value. The numeric
  values 0..5 of the source are the constructors in the order below.
\<close>

datatype RunnerStatus =
    RunnerStatus_UNSPECIFIED
  | RunnerStatus_ONLINE
  | RunnerStatus_OFFLINE
  | RunnerStatus_BUSY
  | RunnerStatus_UNKNOWN
  | RunnerStatus_IDLE

text \<open>
  \<open>interface GitHubRunner\<close> of probe.ts. The fields \<open>id\<close>, \<open>name\<close>, \<open>status\<close>, ... carry
  the prefix \<open>gh_\<close> because the stored records below have fields of the same names.
  A label \<open>{ name: string }\<close> is its name.
\<close>

record GitHubRunner =
  gh_id :: nat
  gh_name :: string
  gh_status :: string
  gh_busy :: bool
  gh_os :: string
  gh_labels :: "string list"
  gh_enabled :: bool

text \<open>
  The three item types of the store. Timestamps are the \<open>bigint\<close> milliseconds of the
  source, read as naturals. The fields \<open>createdAt\<close> and \<open>updatedAt\<close> are filled by the
  store from its own metadata and are never read or written by probe.ts; they are left out.
  In the generated type \<open>resolvedAt\<close> is a plain \<open>bigint\<close>: an outage that is still going on
  has the value 0, which is what the test \<open>!item.resolvedAt\<close> of the source accepts.
\<close>

record Repository =
  rp_repoId :: string
  rp_owner :: string
  rp_name :: string
  isActive :: bool
  lastSyncedAt :: nat

record Runner =
  runnerId :: nat
  repoId :: string
  name :: string
  status :: RunnerStatus
  enabled :: bool
  os :: string
  labels :: "string list"
  lastSeenAt :: nat
  firstSeenAt :: nat

record OutageEvent =
  outageId :: nat
  o_repoId :: string
  o_runnerId :: nat
  runnerName :: string
  o_status :: RunnerStatus
  startedAt :: nat
  resolvedAt :: nat
  description :: string
  notificationSent :: bool

text \<open>The message bodies built by the two Slack senders of probe.ts: the fields of the
  section block and the time of the context block.\<close>

datatype message_kind = Alert | Recovery

record slack_message =
  m_kind :: message_kind
  m_repoId :: string
  m_runner :: string
  m_status :: string
  m_outageId :: nat
  m_at :: nat

datatype error =
    ParameterNotFound string
  | ClientInitFailed
  | RepositoriesParseFailed
  | MalformedRepository string
  | GitHubFetchFailed string
  | SlackPostFailed

text \<open>
  Everything the pass does to the outside is recorded, in order: each \<open>client.put\<close>, each
  \<open>axios.post\<close> to the webhook with its outcome, and each \<open>console.error\<close> of a caught
  exception. (\<open>console.log\<close> lines are not recorded.)
\<close>

datatype effect =
    PutRepository Repository
  | PutRunner Runner
  | PutOutage OutageEvent
  | SlackPost "string option" slack_message bool
  | ConsoleError error

text \<open>
  The state a pass works on: the three tables of the store, the number of clock readings
  taken so far, and the record of effects. The store keeps one item per key path:
  \<open>/repo-:repoId\<close>, \<open>/repo-:repoId/runner-:name\<close> and
  \<open>/repo-:repoId/history-:runnerId/outage-:outageId\<close>.
\<close>

record world =
  repositories :: "Repository list"
  runners :: "Runner list"
  outages :: "OutageEvent list"
  ticks :: nat
  trace :: "effect list"

text \<open>
  What the pass reads from outside: \<open>clock e k\<close> is the value of the \<open>k\<close>-th reading of
  \<open>Date.now()\<close>; \<open>slack_post\<close> says whether \<open>axios.post\<close> to the webhook resolves;
  \<open>github_runners\<close> is the answer of the GitHub API for a repository (\<open>None\<close> when the
  request fails); \<open>json_parse\<close> and \<open>create_client\<close> stand for \<open>JSON.parse\<close> of the
  repository list and \<open>createClient\<close>.
\<close>

record env =
  clock :: "nat \<Rightarrow> nat"
  slack_post :: "string option \<Rightarrow> slack_message \<Rightarrow> bool"
  github_runners :: "string \<Rightarrow> GitHubRunner list option"
  json_parse :: "string option \<Rightarrow> string list option"
  create_client :: "string option \<Rightarrow> bool"

record params =
  githubToken :: "string option"
  statelydbAccessKey :: "string option"
  statelydbStoreId :: "string option"
  statelydbRegion :: "string option"
  repositories_param :: "string option"
  slackWebhook :: "string option"


section \<open>The store\<close>

definition date_now :: "env \<Rightarrow> world \<Rightarrow> nat \<times> world" where
  "date_now e w = (clock e (ticks w), w\<lparr>ticks := Suc (ticks w)\<rparr>)"

text \<open>\<open>put\<close> replaces the item stored under the same key path, or adds the item.\<close>

fun upsert :: "('a \<Rightarrow> bool) \<Rightarrow> 'a \<Rightarrow> 'a list \<Rightarrow> 'a list" where
  "upsert same x [] = [x]"
| "upsert same x (y # ys) = (if same y then x # ys else y # upsert same x ys)"

definition same_repository :: "Repository \<Rightarrow> Repository \<Rightarrow> bool" where
  "same_repository a b = (rp_repoId b = rp_repoId a)"

definition same_runner :: "Runner \<Rightarrow> Runner \<Rightarrow> bool" where
  "same_runner a b = (repoId b = repoId a \<and> name b = name a)"

definition same_outage :: "OutageEvent \<Rightarrow> OutageEvent \<Rightarrow> bool" where
  "same_outage a b =
     (o_repoId b = o_repoId a \<and> o_runnerId b = o_runnerId a \<and> outageId b = outageId a)"

definition get_repository :: "world \<Rightarrow> string \<Rightarrow> Repository option" where
  "get_repository w rid = find (\<lambda>r. rp_repoId r = rid) (repositories w)"

definition put_repository :: "Repository \<Rightarrow> world \<Rightarrow> world" where
  "put_repository r w =
     w\<lparr>repositories := upsert (same_repository r) r (repositories w),
       trace := trace w @ [PutRepository r]\<rparr>"

definition put_runner :: "Runner \<Rightarrow> world \<Rightarrow> world" where
  "put_runner r w =
     w\<lparr>runners := upsert (same_runner r) r (runners w),
       trace := trace w @ [PutRunner r]\<rparr>"

text \<open>The items under \<open>/repo-:repoId/history-:runnerId/outage-\<close>.\<close>

definition outage_history :: "world \<Rightarrow> string \<Rightarrow> nat \<Rightarrow> OutageEvent list" where
  "outage_history w rid n =
     filter (\<lambda>ev. o_repoId ev = rid \<and> o_runnerId ev = n) (outages w)"

text \<open>
  \<open>outageId\<close> has \<open>initialValue: "sequence"\<close>: an item put with the id unset (0) gets the
  next number of the sequence of its path prefix, here one more than the largest id stored
  under the prefix. \<open>put_outage\<close> returns the item as stored, as \<open>client.put\<close> does.
\<close>

definition next_outage_id :: "world \<Rightarrow> string \<Rightarrow> nat \<Rightarrow> nat" where
  "next_outage_id w rid n = Suc (foldr max (map outageId (outage_history w rid n)) 0)"

definition put_outage :: "OutageEvent \<Rightarrow> world \<Rightarrow> OutageEvent \<times> world" where
  "put_outage item w =
     (let stored = (if outageId item = 0
                    then item\<lparr>outageId := next_outage_id w (o_repoId item) (o_runnerId item)\<rparr>
                    else item)
      in (stored, w\<lparr>outages := upsert (same_outage stored) stored (outages w),
                    trace := trace w @ [PutOutage stored]\<rparr>))"

text \<open>\<open>beginList(prefix, { limit: 1, sortDirection: SORT_DESCENDING })\<close>: the item of
  the history with the largest \<open>outageId\<close>, if there is one.\<close>

fun newest :: "OutageEvent list \<Rightarrow> OutageEvent option" where
  "newest [] = None"
| "newest (x # xs) =
     (case newest xs of
        None \<Rightarrow> Some x
      | Some y \<Rightarrow> if outageId x < outageId y then Some y else Some x)"

section \<open>probe.ts\<close>

definition UNHEALTHY_STATUSES :: "RunnerStatus list" where
  "UNHEALTHY_STATUSES = [RunnerStatus_OFFLINE, RunnerStatus_UNKNOWN]"

definition array_includes :: "'a list \<Rightarrow> 'a \<Rightarrow> bool" where
  "array_includes xs x = (x \<in> set xs)"

text \<open>A JavaScript condition on a string that may be undefined: false for
  \<open>undefined\<close> and for the empty string.\<close>

definition truthy :: "string option \<Rightarrow> bool" where
  "truthy s = (case s of None \<Rightarrow> False | Some v \<Rightarrow> v \<noteq> [])"

definition mapGitHubStatus :: "GitHubRunner \<Rightarrow> RunnerStatus" where
  "mapGitHubStatus githubRunner =
     (if gh_status githubRunner \<noteq> ''online'' then RunnerStatus_OFFLINE
      else if gh_busy githubRunner then RunnerStatus_BUSY
      else RunnerStatus_IDLE)"

fun statusToString :: "RunnerStatus \<Rightarrow> string" where
  "statusToString RunnerStatus_ONLINE = ''Online''"
| "statusToString RunnerStatus_OFFLINE = ''Offline''"
| "statusToString RunnerStatus_BUSY = ''Busy''"
| "statusToString RunnerStatus_UNKNOWN = ''Unknown''"
| "statusToString RunnerStatus_IDLE = ''Idle''"
| "statusToString RunnerStatus_UNSPECIFIED = ''Unknown status (0)''"

text \<open>The two senders: build the message, post it, and throw when the post fails.\<close>

definition sendSlackNotification ::
  "env \<Rightarrow> string option \<Rightarrow> Runner \<Rightarrow> RunnerStatus \<Rightarrow> nat \<Rightarrow> world \<Rightarrow> (error \<times> world) + world" where
  "sendSlackNotification e hook runner st oid w =
     (let (t, w1) = date_now e w;
          message = \<lparr>m_kind = Alert, m_repoId = repoId runner, m_runner = name runner,
                     m_status = statusToString st, m_outageId = oid, m_at = t\<rparr>;
          ok = slack_post e hook message;
          w2 = w1\<lparr>trace := trace w1 @ [SlackPost hook message ok]\<rparr>
      in if ok then Inr w2 else Inl (SlackPostFailed, w2))"

definition sendSlackRecoveryNotification ::
  "env \<Rightarrow> string option \<Rightarrow> Runner \<Rightarrow> RunnerStatus \<Rightarrow> nat \<Rightarrow> world \<Rightarrow> (error \<times> world) + world" where
  "sendSlackRecoveryNotification e hook runner st oid w =
     (let (t, w1) = date_now e w;
          message = \<lparr>m_kind = Recovery, m_repoId = repoId runner, m_runner = name runner,
                     m_status = statusToString st, m_outageId = oid, m_at = t\<rparr>;
          ok = slack_post e hook message;
          w2 = w1\<lparr>trace := trace w1 @ [SlackPost hook message ok]\<rparr>
      in if ok then Inr w2 else Inl (SlackPostFailed, w2))"

definition handleUnhealthyRunner ::
  "env \<Rightarrow> Runner \<Rightarrow> RunnerStatus \<Rightarrow> string option \<Rightarrow> world \<Rightarrow> world" where
  "handleUnhealthyRunner e runner st hook w =
     (let (t, w1) = date_now e w;
          (outage, w2) = put_outage
             \<lparr>outageId = 0, o_repoId = repoId runner, o_runnerId = runnerId runner,
              runnerName = name runner, o_status = st, startedAt = t, resolvedAt = 0,
              description = ''Runner '' @ name runner @ '' entered '' @ statusToString st
                            @ '' state'',
              notificationSent = False\<rparr> w1
      in case sendSlackNotification e hook runner st (outageId outage) w2 of
           Inr w3 \<Rightarrow> snd (put_outage (outage\<lparr>notificationSent := True\<rparr>) w3)
         | Inl (err, w3) \<Rightarrow> w3\<lparr>trace := trace w3 @ [ConsoleError err]\<rparr>)"

definition resolveOutage :: "env \<Rightarrow> string \<Rightarrow> nat \<Rightarrow> world \<Rightarrow> nat \<times> world" where
  "resolveOutage e rid n w =
     (case newest (outage_history w rid n) of
        None \<Rightarrow> (0, w)
      | Some item \<Rightarrow>
          if resolvedAt item = 0
          then (let (t, w1) = date_now e w;
                    (stored, w2) = put_outage (item\<lparr>resolvedAt := t\<rparr>) w1
                in (outageId item, w2))
          else (0, w))"

definition fetchExistingRunners :: "world \<Rightarrow> string \<Rightarrow> Runner list" where
  "fetchExistingRunners w rid = filter (\<lambda>r. repoId r = rid) (runners w)"

text \<open>
  \<open>existingRunners.find(...)\<close> returns the first stored runner with the id, and the
  assignments to its fields change that element of the array.
\<close>

fun replace_first :: "('a \<Rightarrow> bool) \<Rightarrow> 'a \<Rightarrow> 'a list \<Rightarrow> 'a list" where
  "replace_first P x [] = []"
| "replace_first P x (y # ys) = (if P y then x # ys else y # replace_first P x ys)"

text \<open>Lines 127-169: the runner is already stored.\<close>

definition update_existing_runner ::
  "env \<Rightarrow> params \<Rightarrow> string \<Rightarrow> GitHubRunner \<Rightarrow> Runner \<Rightarrow> world \<Rightarrow> (error \<times> world) + (Runner \<times> world)" where
  "update_existing_runner e p rid githubRunner existingRunner w =
     (let st = mapGitHubStatus githubRunner;
          oldStatus = status existingRunner;
          (t, w1) = date_now e w;
          r = existingRunner\<lparr>name := gh_name githubRunner, status := st,
                enabled := gh_enabled githubRunner, os := gh_os githubRunner,
                labels := gh_labels githubRunner, lastSeenAt := t\<rparr>;
          w2 = put_runner r w1;
          w3 = (if array_includes UNHEALTHY_STATUSES st \<and> st \<noteq> oldStatus
                then handleUnhealthyRunner e r st (slackWebhook p) w2 else w2)
      in if \<not> array_includes UNHEALTHY_STATUSES st \<and> array_includes UNHEALTHY_STATUSES oldStatus
         then (let (oid, w4) = resolveOutage e rid (gh_id githubRunner) w3
               in if truthy (slackWebhook p)
                  then (case sendSlackRecoveryNotification e (slackWebhook p) r st oid w4 of
                          Inl err \<Rightarrow> Inl err
                        | Inr w5 \<Rightarrow> Inr (r, w5))
                  else Inr (r, w4))
         else Inr (r, w3))"

text \<open>Lines 170-199: the runner is seen for the first time.\<close>

definition create_new_runner ::
  "env \<Rightarrow> params \<Rightarrow> string \<Rightarrow> GitHubRunner \<Rightarrow> world \<Rightarrow> world" where
  "create_new_runner e p rid githubRunner w =
     (let st = mapGitHubStatus githubRunner;
          (now, w1) = date_now e w;
          newRunner = \<lparr>runnerId = gh_id githubRunner, repoId = rid,
                       name = gh_name githubRunner, status = st,
                       enabled = gh_enabled githubRunner, os = gh_os githubRunner,
                       labels = gh_labels githubRunner, lastSeenAt = now,
                       firstSeenAt = now\<rparr>;
          w2 = put_runner newRunner w1
      in if array_includes UNHEALTHY_STATUSES st \<and> truthy (slackWebhook p)
         then handleUnhealthyRunner e newRunner st (slackWebhook p) w2
         else w2)"

text \<open>Lines 116-200: the loop over the runners GitHub returned. It carries the array
  \<open>existingRunners\<close>, the set \<open>processedRunnerIds\<close> and the state; an exception leaves
  the loop with the state reached.\<close>

fun process_runners ::
  "env \<Rightarrow> params \<Rightarrow> string \<Rightarrow> GitHubRunner list \<Rightarrow> Runner list \<Rightarrow> nat set \<Rightarrow> world
     \<Rightarrow> (error \<times> world) + (Runner list \<times> nat set \<times> world)" where
  "process_runners e p rid [] existingRunners processedRunnerIds w =
     Inr (existingRunners, processedRunnerIds, w)"
| "process_runners e p rid (githubRunner # rest) existingRunners processedRunnerIds w =
     (let processed = insert (gh_id githubRunner) processedRunnerIds
      in case find (\<lambda>r. runnerId r = gh_id githubRunner) existingRunners of
           Some existingRunner \<Rightarrow>
             (case update_existing_runner e p rid githubRunner existingRunner w of
                Inl err \<Rightarrow> Inl err
              | Inr (r, w') \<Rightarrow>
                  process_runners e p rid rest
                    (replace_first (\<lambda>x. runnerId x = gh_id githubRunner) r existingRunners)
                    processed w')
         | None \<Rightarrow>
             process_runners e p rid rest existingRunners processed
               (create_new_runner e p rid githubRunner w))"

text \<open>Lines 202-235: the stored runners GitHub did not return.\<close>

definition sweep_runner :: "env \<Rightarrow> params \<Rightarrow> Runner \<Rightarrow> world \<Rightarrow> world" where
  "sweep_runner e p existingRunner w =
     (if status existingRunner \<noteq> RunnerStatus_UNKNOWN
      then (let oldStatus = status existingRunner;
                r = existingRunner\<lparr>status := RunnerStatus_UNKNOWN\<rparr>;
                w1 = put_runner r w
            in if \<not> array_includes UNHEALTHY_STATUSES oldStatus \<and> truthy (slackWebhook p)
               then handleUnhealthyRunner e r RunnerStatus_UNKNOWN (slackWebhook p) w1
               else w1)
      else w)"

fun sweep_missing :: "env \<Rightarrow> params \<Rightarrow> nat set \<Rightarrow> Runner list \<Rightarrow> world \<Rightarrow> world" where
  "sweep_missing e p processedRunnerIds [] w = w"
| "sweep_missing e p processedRunnerIds (existingRunner # rest) w =
     (if runnerId existingRunner \<notin> processedRunnerIds
      then sweep_missing e p processedRunnerIds rest (sweep_runner e p existingRunner w)
      else sweep_missing e p processedRunnerIds rest w)"

text \<open>Lines 106-235: fetch the stored runners, compare with the remote ones, sweep.\<close>

definition reconcile ::
  "env \<Rightarrow> params \<Rightarrow> string \<Rightarrow> GitHubRunner list \<Rightarrow> world \<Rightarrow> (error \<times> world) + world" where
  "reconcile e p rid remote w =
     (case process_runners e p rid remote (fetchExistingRunners w rid) {} w of
        Inl err \<Rightarrow> Inl err
      | Inr (existingRunners, processedRunnerIds, w') \<Rightarrow>
          Inr (sweep_missing e p processedRunnerIds existingRunners w'))"

text \<open>\<open>repo.split("/")\<close> and the destructuring \<open>[owner, name]\<close>.\<close>

fun split_on :: "char \<Rightarrow> string \<Rightarrow> string list" where
  "split_on c [] = [[]]"
| "split_on c (x # xs) =
     (if x = c then [] # split_on c xs
      else (case split_on c xs of
              [] \<Rightarrow> [[x]]
            | part # parts \<Rightarrow> (x # part) # parts))"

definition repo_owner :: "string \<Rightarrow> string option" where
  "repo_owner repo = (case split_on CHR ''/'' repo of [] \<Rightarrow> None | ow # _ \<Rightarrow> Some ow)"

definition repo_id :: "string \<Rightarrow> string option" where
  "repo_id repo =
     (case split_on CHR ''/'' repo of [] \<Rightarrow> None | [ow] \<Rightarrow> None | ow # nm # _ \<Rightarrow> Some nm)"


text \<open>
  Lines 72-235, the body of the \<open>try\<close> for one repository. When the repository string
  has no second component, \<open>name\<close> is undefined in the source; what the store client does
  with an undefined id is not part of the source, and the body stops with an error here.
\<close>

definition process_repository_body ::
  "env \<Rightarrow> params \<Rightarrow> string \<Rightarrow> world \<Rightarrow> (error \<times> world) + world" where
  "process_repository_body e p repo w =
     (case (repo_owner repo, repo_id repo) of
        (Some ow, Some rid) \<Rightarrow>
          (let (t, w0) = date_now e w;
               w1 = (case get_repository w rid of
                       None \<Rightarrow> put_repository
                                 \<lparr>rp_repoId = rid, rp_owner = ow, rp_name = rid,
                                  isActive = True, lastSyncedAt = t\<rparr> w0
                     | Some repository \<Rightarrow>
                         put_repository (repository\<lparr>lastSyncedAt := t\<rparr>) w0)
           in case github_runners e repo of
                None \<Rightarrow> Inl (GitHubFetchFailed repo,
                            w1\<lparr>trace := trace w1 @ [ConsoleError (GitHubFetchFailed repo)]\<rparr>)
              | Some remote \<Rightarrow> reconcile e p rid remote w1)
      | _ \<Rightarrow> Inl (MalformedRepository repo, w))"

definition process_repository :: "env \<Rightarrow> params \<Rightarrow> string \<Rightarrow> world \<Rightarrow> world" where
  "process_repository e p repo w =
     (case process_repository_body e p repo w of
        Inr w' \<Rightarrow> w'
      | Inl (err, w') \<Rightarrow> w'\<lparr>trace := trace w' @ [ConsoleError err]\<rparr>)"




section \<open>Notions used in the statements\<close>

text \<open>
  The items and messages the functions above build, named so that the theorems can speak
  of them: the record the update path writes for a stored runner that GitHub returned,
  the record the creation path writes, the outage \<open>handleUnhealthyRunner\<close> creates (with
  the id the store assigns), the alert it posts, and the recovery message.
\<close>

definition observed_runner :: "env \<Rightarrow> GitHubRunner \<Rightarrow> Runner \<Rightarrow> world \<Rightarrow> Runner" where
  "observed_runner e githubRunner existingRunner w =
     existingRunner\<lparr>name := gh_name githubRunner, status := mapGitHubStatus githubRunner,
       enabled := gh_enabled githubRunner, os := gh_os githubRunner,
       labels := gh_labels githubRunner, lastSeenAt := clock e (ticks w)\<rparr>"

definition new_runner :: "env \<Rightarrow> string \<Rightarrow> GitHubRunner \<Rightarrow> world \<Rightarrow> Runner" where
  "new_runner e rid githubRunner w =
     \<lparr>runnerId = gh_id githubRunner, repoId = rid, name = gh_name githubRunner,
      status = mapGitHubStatus githubRunner, enabled = gh_enabled githubRunner,
      os = gh_os githubRunner, labels = gh_labels githubRunner,
      lastSeenAt = clock e (ticks w), firstSeenAt = clock e (ticks w)\<rparr>"

definition opened_outage :: "env \<Rightarrow> Runner \<Rightarrow> RunnerStatus \<Rightarrow> world \<Rightarrow> OutageEvent" where
  "opened_outage e runner st w =
     \<lparr>outageId = next_outage_id w (repoId runner) (runnerId runner),
      o_repoId = repoId runner, o_runnerId = runnerId runner, runnerName = name runner,
      o_status = st, startedAt = clock e (ticks w), resolvedAt = 0,
      description = ''Runner '' @ name runner @ '' entered '' @ statusToString st @ '' state'',
      notificationSent = False\<rparr>"

definition alert_message :: "env \<Rightarrow> Runner \<Rightarrow> RunnerStatus \<Rightarrow> world \<Rightarrow> slack_message" where
  "alert_message e runner st w =
     \<lparr>m_kind = Alert, m_repoId = repoId runner, m_runner = name runner,
      m_status = statusToString st,
      m_outageId = next_outage_id w (repoId runner) (runnerId runner),
      m_at = clock e (Suc (ticks w))\<rparr>"

definition recovery_message ::
  "env \<Rightarrow> Runner \<Rightarrow> RunnerStatus \<Rightarrow> nat \<Rightarrow> world \<Rightarrow> slack_message" where
  "recovery_message e runner st oid w =
     \<lparr>m_kind = Recovery, m_repoId = repoId runner, m_runner = name runner,
      m_status = statusToString st, m_outageId = oid, m_at = clock e (ticks w)\<rparr>"

text \<open>The state in which a run of the loop or of the body ends, normally or not.\<close>

definition final_world :: "(error \<times> world) + ('a \<times> 'b \<times> world) \<Rightarrow> world" where
  "final_world r = (case r of Inl (err, w) \<Rightarrow> w | Inr (a, b, w) \<Rightarrow> w)"

definition end_world :: "(error \<times> world) + world \<Rightarrow> world" where
  "end_world r = (case r of Inl (err, w) \<Rightarrow> w | Inr w \<Rightarrow> w)"

text \<open>The key path of a stored outage, and the outages of a runner that are still open.\<close>

definition outage_key :: "OutageEvent \<Rightarrow> string \<times> nat \<times> nat" where
  "outage_key ev = (o_repoId ev, o_runnerId ev, outageId ev)"

definition open_outages :: "world \<Rightarrow> string \<Rightarrow> nat \<Rightarrow> OutageEvent list" where
  "open_outages w rid n = filter (\<lambda>ev. resolvedAt ev = 0) (outage_history w rid n)"


fun outage_puts :: "effect list \<Rightarrow> OutageEvent list" where
  "outage_puts [] = []"
| "outage_puts (PutOutage ev # xs) = ev # outage_puts xs"
| "outage_puts (x # xs) = outage_puts xs"

fun slack_posts :: "effect list \<Rightarrow> slack_message list" where
  "slack_posts [] = []"
| "slack_posts (SlackPost hook msg ok # xs) = msg # slack_posts xs"
| "slack_posts (x # xs) = slack_posts xs"

text \<open>The effects added between two states, and the statement that the record of effects
  only grew, by effects that satisfy \<open>P\<close>.\<close>

definition effects_since :: "world \<Rightarrow> world \<Rightarrow> effect list" where
  "effects_since w w' = drop (length (trace w)) (trace w')"



text \<open>Concrete inputs on which the theorems are instantiated: an empty store, a clock
  that starts at 1000, a webhook that accepts every message, parameters with and without
  a webhook, and a runner as GitHub reports it.\<close>

definition empty_world :: world where
  "empty_world = \<lparr>repositories = [], runners = [], outages = [], ticks = 0, trace = []\<rparr>"

definition demo_env :: "GitHubRunner list \<Rightarrow> bool \<Rightarrow> env" where
  "demo_env remote ok =
     \<lparr>clock = (\<lambda>k. 1000 + k), slack_post = (\<lambda>hook msg. ok),
      github_runners = (\<lambda>repo. Some remote),
      json_parse = (\<lambda>s. Some [''acme/ci'']), create_client = (\<lambda>s. True)\<rparr>"

definition demo_params :: "string option \<Rightarrow> params" where
  "demo_params hook =
     \<lparr>githubToken = Some ''token'', statelydbAccessKey = Some ''key'',
      statelydbStoreId = Some ''1'', statelydbRegion = Some ''us-west-2'',
      repositories_param = Some ''[\"acme/ci\"]'', slackWebhook = hook\<rparr>"

definition demo_runner :: "nat \<Rightarrow> string \<Rightarrow> string \<Rightarrow> bool \<Rightarrow> GitHubRunner" where
  "demo_runner n nm st b =
     \<lparr>gh_id = n, gh_name = nm, gh_status = st, gh_busy = b, gh_os = ''linux'',
      gh_labels = [''self-hosted''], gh_enabled = True\<rparr>"

definition stored_runner :: "nat \<Rightarrow> string \<Rightarrow> RunnerStatus \<Rightarrow> Runner" where
  "stored_runner n nm st =
     \<lparr>runnerId = n, repoId = ''ci'', name = nm, status = st, enabled = True,
      os = ''linux'', labels = [''self-hosted''], lastSeenAt = 900, firstSeenAt = 800\<rparr>"

definition stored_outage :: "nat \<Rightarrow> nat \<Rightarrow> OutageEvent" where
  "stored_outage k t =
     \<lparr>outageId = k, o_repoId = ''ci'', o_runnerId = 7, runnerName = ''r1'',
      o_status = RunnerStatus_OFFLINE, startedAt = 100 * k, resolvedAt = t,
      description = ''Runner r1 entered Offline state'', notificationSent = True\<rparr>"


definition store_ok :: "world \<Rightarrow> bool" where
  "store_ok w =
     (distinct (map outage_key (outages w)) \<and> (\<forall>ev\<in>set (outages w). outageId ev \<noteq> 0))"

definition alerts :: "effect list \<Rightarrow> slack_message list" where
  "alerts d = filter (\<lambda>m. m_kind m = Alert) (slack_posts d)"

definition no_redispatch :: "world \<Rightarrow> world \<Rightarrow> bool" where
  "no_redispatch w w' =
     (store_ok w \<longrightarrow>
        store_ok w' \<and>
        take (length (trace w)) (trace w') = trace w \<and>
        length (outages w) \<le> length (outages w') \<and>
        map outage_key (take (length (outages w)) (outages w')) = map outage_key (outages w) \<and>
        map notificationSent (take (length (outages w)) (outages w')) =
          map notificationSent (outages w) \<and>
        length (alerts (effects_since w w')) = length (outages w') - length (outages w))"

definition swept_world :: world where
  "swept_world =
     \<lparr>repositories = [\<lparr>rp_repoId = ''ci'', rp_owner = ''acme'', rp_name = ''ci'',
                        isActive = True, lastSyncedAt = 1002\<rparr>],
      runners = [\<lparr>runnerId = 7, repoId = ''ci'', name = ''r1'',
                  status = RunnerStatus_UNKNOWN, enabled = True, os = ''linux'',
                  labels = [''self-hosted''], lastSeenAt = 1001, firstSeenAt = 1001\<rparr>],
      outages = [\<lparr>outageId = 1, o_repoId = ''ci'', o_runnerId = 7, runnerName = ''r1'',
                  o_status = RunnerStatus_UNKNOWN, startedAt = 1003, resolvedAt = 0,
                  description = ''Runner r1 entered Unknown state'',
                  notificationSent = True\<rparr>],
      ticks = 5, trace = []\<rparr>"






section \<open>Basic facts about the store\<close>

lemma upsert_absent: "\<forall>y\<in>set xs. \<not> same y \<Longrightarrow> upsert same x xs = xs @ [x]"
  by (induction xs) auto

lemma upsert_last:
  "\<forall>y\<in>set xs. \<not> same y \<Longrightarrow> same x' \<Longrightarrow> upsert same x (xs @ [x']) = xs @ [x]"
  by (induction xs) auto

lemma length_upsert:
  "length (upsert same x xs) = (if \<exists>y\<in>set xs. same y then length xs else Suc (length xs))"
  by (induction xs) auto


lemma foldr_max_ge: "n \<in> set ns \<Longrightarrow> n \<le> foldr max ns (0::nat)"
  by (induction ns) (auto simp: max_def)

lemma next_outage_id_fresh:
  assumes "ev \<in> set (outages w)" "o_repoId ev = rid" "o_runnerId ev = n"
  shows "outageId ev < next_outage_id w rid n"
proof -
  have "outageId ev \<in> set (map outageId (outage_history w rid n))"
    using assms by (auto simp: outage_history_def)
  then have "outageId ev \<le> foldr max (map outageId (outage_history w rid n)) 0"
    by (rule foldr_max_ge)
  then show ?thesis by (simp add: next_outage_id_def)
qed

lemma put_outage_new:
  assumes "outageId item = 0"
  shows "put_outage item w =
     (item\<lparr>outageId := next_outage_id w (o_repoId item) (o_runnerId item)\<rparr>,
      w\<lparr>outages := outages w
           @ [item\<lparr>outageId := next_outage_id w (o_repoId item) (o_runnerId item)\<rparr>],
        trace := trace w
           @ [PutOutage (item\<lparr>outageId := next_outage_id w (o_repoId item) (o_runnerId item)\<rparr>)]\<rparr>)"
proof -
  let ?s = "item\<lparr>outageId := next_outage_id w (o_repoId item) (o_runnerId item)\<rparr>"
  have "\<forall>y\<in>set (outages w). \<not> same_outage ?s y"
    using next_outage_id_fresh[of _ w "o_repoId item" "o_runnerId item"]
    by (fastforce simp: same_outage_def)
  then have "upsert (same_outage ?s) ?s (outages w) = outages w @ [?s]"
    by (rule upsert_absent)
  then show ?thesis using assms by (simp add: put_outage_def Let_def)
qed

lemma put_outage_last:
  assumes "outageId ev \<noteq> 0" "\<forall>y\<in>set xs. \<not> same_outage ev y" "outages w = xs @ [ev']"
    "same_outage ev ev'"
  shows "put_outage ev w = (ev, w\<lparr>outages := xs @ [ev], trace := trace w @ [PutOutage ev]\<rparr>)"
  using assms upsert_last[of xs "same_outage ev" ev' ev] by (simp add: put_outage_def)

text \<open>What \<open>handleUnhealthyRunner\<close> does, in one equation: the new outage is appended to
  the table, first with \<open>notificationSent = False\<close>; the alert is posted; the flag is set
  when the post succeeded, and the failure is logged otherwise.\<close>

lemma handleUnhealthyRunner_eq:
  "handleUnhealthyRunner e runner st hook w =
     w\<lparr>outages := outages w @ [(opened_outage e runner st w)
                    \<lparr>notificationSent := slack_post e hook (alert_message e runner st w)\<rparr>],
       ticks := Suc (Suc (ticks w)),
       trace := trace w @
         [PutOutage (opened_outage e runner st w),
          SlackPost hook (alert_message e runner st w)
            (slack_post e hook (alert_message e runner st w)),
          if slack_post e hook (alert_message e runner st w)
          then PutOutage ((opened_outage e runner st w)\<lparr>notificationSent := True\<rparr>)
          else ConsoleError SlackPostFailed]\<rparr>"
proof -
  define oid where "oid = next_outage_id w (repoId runner) (runnerId runner)"
  define d where "d = ''Runner '' @ name runner @ '' entered '' @ statusToString st @ '' state''"
  define item where "item = \<lparr>outageId = 0, o_repoId = repoId runner,
      o_runnerId = runnerId runner, runnerName = name runner, o_status = st,
      startedAt = clock e (ticks w), resolvedAt = 0, description = d,
      notificationSent = False\<rparr>"
  define ev where "ev = item\<lparr>outageId := oid\<rparr>"
  define w1 where "w1 = w\<lparr>ticks := Suc (ticks w)\<rparr>"
  define w2 where "w2 = w1\<lparr>outages := outages w @ [ev], trace := trace w @ [PutOutage ev]\<rparr>"
  define msg where "msg = \<lparr>m_kind = Alert, m_repoId = repoId runner, m_runner = name runner,
      m_status = statusToString st, m_outageId = oid, m_at = clock e (Suc (ticks w))\<rparr>"
  define ok where "ok = slack_post e hook msg"
  define w3 where
    "w3 = w2\<lparr>ticks := Suc (Suc (ticks w)), trace := trace w2 @ [SlackPost hook msg ok]\<rparr>"
  have oid_pos: "oid \<noteq> 0" by (simp add: oid_def next_outage_id_def)
  have n: "next_outage_id w1 (o_repoId item) (o_runnerId item) = oid"
    by (simp add: next_outage_id_def outage_history_def w1_def item_def oid_def)
  have p1: "put_outage item w1 = (ev, w2)"
    using put_outage_new[of item w1] n by (simp add: item_def ev_def w2_def w1_def)
  have s: "sendSlackNotification e hook runner st oid w2 =
             (if ok then Inr w3 else Inl (SlackPostFailed, w3))"
    by (simp add: sendSlackNotification_def date_now_def Let_def msg_def ok_def w3_def
        w2_def w1_def)
  have fresh: "\<forall>y\<in>set (outages w). \<not> same_outage (ev\<lparr>notificationSent := True\<rparr>) y"
    using next_outage_id_fresh[of _ w "repoId runner" "runnerId runner"]
    by (fastforce simp: same_outage_def ev_def item_def oid_def)
  have p2: "put_outage (ev\<lparr>notificationSent := True\<rparr>) w3 =
      (ev\<lparr>notificationSent := True\<rparr>,
       w3\<lparr>outages := outages w @ [ev\<lparr>notificationSent := True\<rparr>],
          trace := trace w3 @ [PutOutage (ev\<lparr>notificationSent := True\<rparr>)]\<rparr>)"
    by (rule put_outage_last[OF _ fresh, where ev' = ev])
       (simp_all add: ev_def oid_pos w3_def w2_def w1_def same_outage_def)
  have "handleUnhealthyRunner e runner st hook w =
     (case put_outage item w1 of
        (outage, w2) \<Rightarrow>
          (case sendSlackNotification e hook runner st (outageId outage) w2 of
             Inr w3 \<Rightarrow> snd (put_outage (outage\<lparr>notificationSent := True\<rparr>) w3)
           | Inl (err, w3) \<Rightarrow> w3\<lparr>trace := trace w3 @ [ConsoleError err]\<rparr>))"
    unfolding handleUnhealthyRunner_def date_now_def item_def d_def w1_def
    by (simp only: Let_def prod.case)
  also have "\<dots> = (if ok then snd (put_outage (ev\<lparr>notificationSent := True\<rparr>) w3)
      else w3\<lparr>trace := trace w3 @ [ConsoleError SlackPostFailed]\<rparr>)"
    using s by (simp add: p1 ev_def)
  also have "\<dots> = w\<lparr>outages := outages w @ [ev\<lparr>notificationSent := ok\<rparr>],
           ticks := Suc (Suc (ticks w)),
           trace := trace w @ [PutOutage ev, SlackPost hook msg ok,
                      if ok then PutOutage (ev\<lparr>notificationSent := True\<rparr>)
                      else ConsoleError SlackPostFailed]\<rparr>"
  proof (cases ok)
    case True
    then show ?thesis unfolding p2 by (simp add: w3_def w2_def w1_def)
  next
    case False
    then show ?thesis by (simp add: w3_def w2_def w1_def ev_def item_def)
  qed
  finally show ?thesis
    by (simp add: opened_outage_def alert_message_def ev_def item_def oid_def msg_def
        ok_def d_def)
qed

section \<open>Facts about the pass\<close>

lemma newest_mem: "newest xs = Some x \<Longrightarrow> x \<in> set xs"
  by (induction xs arbitrary: x) (auto split: option.splits if_splits)

lemma newest_None: "newest xs = None \<longleftrightarrow> xs = []"
  by (induction xs) (auto split: option.splits)

lemma newest_max: "newest xs = Some x \<Longrightarrow> y \<in> set xs \<Longrightarrow> outageId y \<le> outageId x"
  by (induction xs arbitrary: x) (fastforce split: option.splits if_splits simp: newest_None)+

lemma update_existing_runner_unfold:
  "update_existing_runner e p rid g old w =
     (let r = observed_runner e g old w;
          st = mapGitHubStatus g;
          w2 = put_runner r (w\<lparr>ticks := Suc (ticks w)\<rparr>);
          w3 = (if array_includes UNHEALTHY_STATUSES st \<and> st \<noteq> status old
                then handleUnhealthyRunner e r st (slackWebhook p) w2 else w2)
      in if \<not> array_includes UNHEALTHY_STATUSES st \<and> array_includes UNHEALTHY_STATUSES (status old)
         then (if truthy (slackWebhook p)
               then (case sendSlackRecoveryNotification e (slackWebhook p) r st
                           (fst (resolveOutage e rid (gh_id g) w3))
                           (snd (resolveOutage e rid (gh_id g) w3)) of
                       Inl err \<Rightarrow> Inl err
                     | Inr w5 \<Rightarrow> Inr (r, w5))
               else Inr (r, snd (resolveOutage e rid (gh_id g) w3)))
         else Inr (r, w3))"
  unfolding update_existing_runner_def date_now_def observed_runner_def
  by (simp only: Let_def prod.case split_beta fst_conv snd_conv)

lemma create_new_runner_unfold:
  "create_new_runner e p rid g w =
     (let r = new_runner e rid g w;
          w2 = put_runner r (w\<lparr>ticks := Suc (ticks w)\<rparr>)
      in if array_includes UNHEALTHY_STATUSES (mapGitHubStatus g) \<and> truthy (slackWebhook p)
         then handleUnhealthyRunner e r (mapGitHubStatus g) (slackWebhook p) w2
         else w2)"
  unfolding create_new_runner_def date_now_def new_runner_def
  by (simp only: Let_def prod.case split_beta fst_conv snd_conv)

lemma pass_rel_update:
  assumes trans: "\<And>a b c. R a b \<Longrightarrow> R b c \<Longrightarrow> R a c"
    and tick: "\<And>w. R w (w\<lparr>ticks := Suc (ticks w)\<rparr>)"
    and putr: "\<And>r w. repoId r = rid \<Longrightarrow> R w (put_runner r w)"
    and hur: "\<And>r st w. repoId r = rid \<Longrightarrow> R w (handleUnhealthyRunner e r st (slackWebhook p) w)"
    and res: "\<And>n w. R w (snd (resolveOutage e rid n w))"
    and rec: "\<And>r st oid w. repoId r = rid \<Longrightarrow>
               R w (end_world (sendSlackRecoveryNotification e (slackWebhook p) r st oid w))"
    and old: "repoId old = rid"
  shows "(update_existing_runner e p rid g old w = Inl (err, w') \<longrightarrow> R w w') \<and>
         (update_existing_runner e p rid g old w = Inr (r, w') \<longrightarrow> R w w' \<and> r = observed_runner e g old w)"
proof -
  define r0 where "r0 = observed_runner e g old w"
  define st where "st = mapGitHubStatus g"
  define w2 where "w2 = put_runner r0 (w\<lparr>ticks := Suc (ticks w)\<rparr>)"
  define w3 where "w3 = (if array_includes UNHEALTHY_STATUSES st \<and> st \<noteq> status old
                then handleUnhealthyRunner e r0 st (slackWebhook p) w2 else w2)"
  define w4 where "w4 = snd (resolveOutage e rid (gh_id g) w3)"
  define oid where "oid = fst (resolveOutage e rid (gh_id g) w3)"
  have r0: "repoId r0 = rid" using old by (simp add: r0_def observed_runner_def)
  have R2: "R w w2" unfolding w2_def using trans[OF tick putr[OF r0]] .
  have R3: "R w w3" unfolding w3_def using R2 trans[OF R2 hur[OF r0]] by (simp add: w3_def)
  have R4: "R w w4" unfolding w4_def using trans[OF R3 res] .
  have R5: "R w (end_world (sendSlackRecoveryNotification e (slackWebhook p) r0 st oid w4))"
    using trans[OF R4 rec[OF r0]] .
  have u: "update_existing_runner e p rid g old w =
     (if \<not> array_includes UNHEALTHY_STATUSES st \<and> array_includes UNHEALTHY_STATUSES (status old)
         then (if truthy (slackWebhook p)
               then (case sendSlackRecoveryNotification e (slackWebhook p) r0 st oid w4 of
                       Inl err \<Rightarrow> Inl err
                     | Inr w5 \<Rightarrow> Inr (r0, w5))
               else Inr (r0, w4))
         else Inr (r0, w3))"
    unfolding update_existing_runner_unfold r0_def st_def w2_def w3_def w4_def oid_def
    by (simp only: Let_def)
  show ?thesis
    unfolding u using R3 R4 R5 r0_def
    by (auto simp: end_world_def split: sum.splits if_splits)
qed

lemma pass_rel_create:
  assumes trans: "\<And>a b c. R a b \<Longrightarrow> R b c \<Longrightarrow> R a c"
    and tick: "\<And>w. R w (w\<lparr>ticks := Suc (ticks w)\<rparr>)"
    and putr: "\<And>r w. repoId r = rid \<Longrightarrow> R w (put_runner r w)"
    and hur: "\<And>r st w. repoId r = rid \<Longrightarrow> R w (handleUnhealthyRunner e r st (slackWebhook p) w)"
  shows "R w (create_new_runner e p rid g w)"
proof -
  have r0: "repoId (new_runner e rid g w) = rid" by (simp add: new_runner_def)
  have R2: "R w (put_runner (new_runner e rid g w) (w\<lparr>ticks := Suc (ticks w)\<rparr>))"
    using trans[OF tick putr[OF r0]] .
  show ?thesis
    unfolding create_new_runner_unfold Let_def using R2 trans[OF R2 hur[OF r0]] by simp
qed

lemma find_Some_mem: "find P xs = Some x \<Longrightarrow> x \<in> set xs \<and> P x"
  by (induction xs) (auto split: if_splits)

lemma set_replace_first: "set (replace_first P x xs) \<subseteq> insert x (set xs)"
  by (induction xs) auto

lemma pass_rel_loop:
  assumes refl: "\<And>w. R w w"
    and trans: "\<And>a b c. R a b \<Longrightarrow> R b c \<Longrightarrow> R a c"
    and tick: "\<And>w. R w (w\<lparr>ticks := Suc (ticks w)\<rparr>)"
    and putr: "\<And>r w. repoId r = rid \<Longrightarrow> R w (put_runner r w)"
    and hur: "\<And>r st w. repoId r = rid \<Longrightarrow> R w (handleUnhealthyRunner e r st (slackWebhook p) w)"
    and res: "\<And>n w. R w (snd (resolveOutage e rid n w))"
    and rec: "\<And>r st oid w. repoId r = rid \<Longrightarrow>
               R w (end_world (sendSlackRecoveryNotification e (slackWebhook p) r st oid w))"
  shows "\<forall>r\<in>set ex. repoId r = rid \<Longrightarrow>
         (case process_runners e p rid gs ex pr w of
            Inl (err, w') \<Rightarrow> R w w'
          | Inr (ex', pr', w') \<Rightarrow> R w w' \<and> (\<forall>r\<in>set ex'. repoId r = rid))"
proof (induction gs arbitrary: ex pr w)
  case Nil
  then show ?case by (simp add: refl)
next
  case (Cons g gs)
  show ?case
  proof (cases "find (\<lambda>r. runnerId r = gh_id g) ex")
    case None
    have R1: "R w (create_new_runner e p rid g w)"
      by (rule pass_rel_create[OF trans tick putr hur])
    show ?thesis
      using Cons.IH[OF Cons.prems, where pr = "insert (gh_id g) pr" and w = "create_new_runner e p rid g w"] None R1
      by (auto split: sum.splits intro: trans)
  next
    case (Some old)
    then have old: "repoId old = rid" using Cons.prems find_Some_mem[OF Some] by auto
    note u = pass_rel_update[of R rid e p old g w, OF trans tick putr hur res rec old]
    show ?thesis
    proof (cases "update_existing_runner e p rid g old w")
      case (Inl a)
      then show ?thesis using Some u by (cases a) auto
    next
      case (Inr b)
      obtain r w1 where b: "b = (r, w1)" by (cases b)
      have R1: "R w w1" and r: "r = observed_runner e g old w" using u Inr b by auto
      have "repoId r = rid" using r old by (simp add: observed_runner_def)
      then have inv: "\<forall>x\<in>set (replace_first (\<lambda>x. runnerId x = gh_id g) r ex). repoId x = rid"
        using Cons.prems set_replace_first[of "\<lambda>x. runnerId x = gh_id g" r ex] by auto
      show ?thesis
        using Cons.IH[OF inv, where pr = "insert (gh_id g) pr" and w = w1] Some Inr b R1
        by (auto split: sum.splits intro: trans)
    qed
  qed
qed


lemma pass_rel_sweep:
  assumes refl: "\<And>w. R w w"
    and trans: "\<And>a b c. R a b \<Longrightarrow> R b c \<Longrightarrow> R a c"
    and putr: "\<And>r w. repoId r = rid \<Longrightarrow> R w (put_runner r w)"
    and hur: "\<And>r st w. repoId r = rid \<Longrightarrow> R w (handleUnhealthyRunner e r st (slackWebhook p) w)"
  shows "\<forall>r\<in>set ex. repoId r = rid \<Longrightarrow> R w (sweep_missing e p pr ex w)"
proof (induction ex arbitrary: w)
  case Nil
  then show ?case by (simp add: refl)
next
  case (Cons x ex)
  have x: "repoId (x\<lparr>status := RunnerStatus_UNKNOWN\<rparr>) = rid" using Cons.prems by simp
  have R1: "R w (put_runner (x\<lparr>status := RunnerStatus_UNKNOWN\<rparr>) w)" by (rule putr[OF x])
  have "R w (sweep_runner e p x w)"
    unfolding sweep_runner_def Let_def using R1 trans[OF R1 hur[OF x]] refl by simp
  moreover have "R (sweep_runner e p x w) (sweep_missing e p pr ex (sweep_runner e p x w))"
    and "R w (sweep_missing e p pr ex w)"
    using Cons.IH Cons.prems by auto
  ultimately show ?case by (auto intro: trans)
qed

lemma fetchExistingRunners_repoId: "\<forall>r\<in>set (fetchExistingRunners w rid). repoId r = rid"
  by (simp add: fetchExistingRunners_def)

lemma pass_rel_reconcile:
  assumes refl: "\<And>w. R w w"
    and trans: "\<And>a b c. R a b \<Longrightarrow> R b c \<Longrightarrow> R a c"
    and tick: "\<And>w. R w (w\<lparr>ticks := Suc (ticks w)\<rparr>)"
    and putr: "\<And>r w. repoId r = rid \<Longrightarrow> R w (put_runner r w)"
    and hur: "\<And>r st w. repoId r = rid \<Longrightarrow> R w (handleUnhealthyRunner e r st (slackWebhook p) w)"
    and res: "\<And>n w. R w (snd (resolveOutage e rid n w))"
    and rec: "\<And>r st oid w. repoId r = rid \<Longrightarrow>
               R w (end_world (sendSlackRecoveryNotification e (slackWebhook p) r st oid w))"
  shows "R w (end_world (reconcile e p rid remote w))"
proof -
  note l = pass_rel_loop[where R = R and rid = rid and e = e and p = p
      and ex = "fetchExistingRunners w rid" and gs = remote and pr = "{}" and w = w,
      OF refl trans tick putr hur res rec fetchExistingRunners_repoId]
  show ?thesis
  proof (cases "process_runners e p rid remote (fetchExistingRunners w rid) {} w")
    case (Inl a)
    then show ?thesis using l by (cases a) (simp add: reconcile_def end_world_def)
  next
    case (Inr b)
    obtain ex' pr' w' where b: "b = (ex', pr', w')" by (cases b)
    have "R w w'" and inv: "\<forall>r\<in>set ex'. repoId r = rid" using l Inr b by auto
    moreover have "R w' (sweep_missing e p pr' ex' w')"
      by (rule pass_rel_sweep[OF refl trans putr hur inv])
    ultimately show ?thesis using Inr b by (auto simp: reconcile_def end_world_def intro: trans)
  qed
qed










lemma resolveOutage_unfold:
  "resolveOutage e rid n w =
     (case newest (outage_history w rid n) of
        None \<Rightarrow> (0, w)
      | Some item \<Rightarrow>
          if resolvedAt item = 0
          then (outageId item,
                snd (put_outage (item\<lparr>resolvedAt := clock e (ticks w)\<rparr>)
                       (w\<lparr>ticks := Suc (ticks w)\<rparr>)))
          else (0, w))"
  unfolding resolveOutage_def date_now_def
  by (simp only: Let_def prod.case split_beta fst_conv snd_conv)











lemma process_runners_single_found:
  "find (\<lambda>r. runnerId r = gh_id g) ex = Some old \<Longrightarrow>
   process_runners e p rid [g] ex pr w =
     (case update_existing_runner e p rid g old w of
        Inl err \<Rightarrow> Inl err
      | Inr (r, w') \<Rightarrow>
          Inr (replace_first (\<lambda>x. runnerId x = gh_id g) r ex, insert (gh_id g) pr, w'))"
  by (simp add: Let_def split: sum.splits)


lemma opened_outage_put_runner [simp]:
  "opened_outage e r st (put_runner x w) = opened_outage e r st w"
  by (simp add: opened_outage_def put_runner_def next_outage_id_def outage_history_def)

lemma alert_message_put_runner [simp]:
  "alert_message e r st (put_runner x w) = alert_message e r st w"
  by (simp add: alert_message_def put_runner_def next_outage_id_def outage_history_def)

lemma put_runner_fields [simp]:
  "outages (put_runner r w) = outages w"
  "ticks (put_runner r w) = ticks w"
  "trace (put_runner r w) = trace w @ [PutRunner r]"
  "runners (put_runner r w) = upsert (same_runner r) r (runners w)"
  "repositories (put_runner r w) = repositories w"
  by (simp_all add: put_runner_def)

lemma resolveOutage_put_runner:
  "fst (resolveOutage e rid n (put_runner r w)) = fst (resolveOutage e rid n w)"
  "outages (snd (resolveOutage e rid n (put_runner r w))) = outages (snd (resolveOutage e rid n w))"
  "ticks (snd (resolveOutage e rid n (put_runner r w))) = ticks (snd (resolveOutage e rid n w))"
  by (auto simp: resolveOutage_unfold outage_history_def put_runner_def put_outage_def Let_def
      next_outage_id_def split: option.splits)

lemma resolveOutage_nothing_open:
  assumes "newest (outage_history w rid n) = None \<or>
           (\<exists>item. newest (outage_history w rid n) = Some item \<and> resolvedAt item \<noteq> 0)"
  shows "resolveOutage e rid n w = (0, w)"
  using assms by (auto simp: resolveOutage_unfold)

lemma outage_history_put_runner [simp]:
  "outage_history (put_runner r w) rid n = outage_history w rid n"
  by (simp add: outage_history_def)

lemma outage_history_tick [simp]:
  "outage_history (w\<lparr>ticks := k\<rparr>) rid n = outage_history w rid n"
  by (simp add: outage_history_def)

lemma upsert_distinct_map:
  assumes "distinct (map key xs)" "x \<in> set xs" "\<And>y. same y \<longleftrightarrow> key y = key x"
  shows "upsert same x' xs = map (\<lambda>y. if y = x then x' else y) xs"
  using assms(1,2)
proof (induction xs)
  case Nil
  then show ?case by simp
next
  case (Cons a xs)
  show ?case
  proof (cases "a = x")
    case True
    then have "x \<notin> set xs" using Cons.prems(1) by auto
    then have "map (\<lambda>y. if y = x then x' else y) xs = xs" by (induction xs) auto
    then show ?thesis using True assms(3) by simp
  next
    case False
    then have "x \<in> set xs" using Cons.prems(2) by simp
    then have "key x \<in> set (map key xs)" by simp
    then have "key a \<noteq> key x" using Cons.prems(1) by auto
    then show ?thesis using Cons.IH False \<open>x \<in> set xs\<close> Cons.prems(1) assms(3) by simp
  qed
qed

lemma resolveOutage_open:
  assumes d: "distinct (map outage_key (outages w))"
    and nz: "\<forall>ev\<in>set (outages w). outageId ev \<noteq> 0"
    and n: "newest (outage_history w rid n) = Some item"
    and o: "resolvedAt item = 0"
  shows "resolveOutage e rid n w =
     (outageId item,
      w\<lparr>ticks := Suc (ticks w),
        outages := map (\<lambda>ev. if ev = item then item\<lparr>resolvedAt := clock e (ticks w)\<rparr> else ev)
                     (outages w),
        trace := trace w @ [PutOutage (item\<lparr>resolvedAt := clock e (ticks w)\<rparr>)]\<rparr>)"
proof -
  have m: "item \<in> set (outages w)" using newest_mem[OF n] by (simp add: outage_history_def)
  then have z: "outageId item \<noteq> 0" using nz by blast
  have s: "same_outage (item\<lparr>resolvedAt := t\<rparr>) y \<longleftrightarrow> outage_key y = outage_key item" for y t
    by (auto simp: same_outage_def outage_key_def)
  have "upsert (same_outage (item\<lparr>resolvedAt := t\<rparr>)) (item\<lparr>resolvedAt := t\<rparr>) (outages w) =
        map (\<lambda>ev. if ev = item then item\<lparr>resolvedAt := t\<rparr> else ev) (outages w)" for t
    by (rule upsert_distinct_map[OF d m s])
  then show ?thesis
    using n o z by (simp add: resolveOutage_unfold put_outage_def Let_def)
qed

lemma map_map_same: "(\<And>x. f (g x) = f x) \<Longrightarrow> map f (map g xs) = map f xs"
  by (induction xs) auto

lemma slack_posts_append: "slack_posts (a @ b) = slack_posts a @ slack_posts b"
  by (induction a rule: slack_posts.induct) auto

lemma alerts_append: "alerts (a @ b) = alerts a @ alerts b"
  by (simp add: alerts_def slack_posts_append)

lemma no_redispatch_refl: "no_redispatch w w"
  by (simp add: no_redispatch_def effects_since_def alerts_def)

lemma take_prefix_map:
  assumes "map f (take (length a) b) = map f a" "map f (take (length b) c) = map f b"
    "length a \<le> length b" "length b \<le> length c"
  shows "map f (take (length a) c) = map f a"
proof -
  have "map f (take (length a) c) = take (length a) (map f (take (length b) c))"
    using assms(3) by (simp add: take_map min_def)
  also have "\<dots> = map f (take (length a) b)" using assms(2) by (simp add: take_map)
  finally show ?thesis using assms(1) by simp
qed

lemma no_redispatch_trans:
  assumes "no_redispatch a b" "no_redispatch b c"
  shows "no_redispatch a c"
proof -
  have ?thesis if ok: "store_ok a"
  proof -
    note A = assms(1)[unfolded no_redispatch_def, rule_format, OF ok]
    then have okb: "store_ok b" by simp
    note B = assms(2)[unfolded no_redispatch_def, rule_format, OF okb]
    obtain d1 where ta: "trace b = trace a @ d1"
      using A by (metis append_take_drop_id)
    obtain d2 where tb: "trace c = trace b @ d2"
      using B by (metis append_take_drop_id)
    have e: "effects_since a c = effects_since a b @ effects_since b c"
      by (simp add: effects_since_def ta tb)
    have t: "take (length (trace a)) (trace c) = trace a"
      by (simp add: ta tb)
    have k: "map outage_key (take (length (outages a)) (outages c)) = map outage_key (outages a)"
      by (rule take_prefix_map[where b = "outages b"]) (use A B in auto)
    have n: "map notificationSent (take (length (outages a)) (outages c)) =
             map notificationSent (outages a)"
      by (rule take_prefix_map[where b = "outages b"]) (use A B in auto)
    show ?thesis
      unfolding no_redispatch_def using A B e t k n by (simp add: alerts_append)
  qed
  then show ?thesis by (auto simp: no_redispatch_def)
qed

lemma no_redispatch_same_outages:
  assumes "outages w' = outages w" "trace w' = trace w @ d" "alerts d = []"
  shows "no_redispatch w w'"
  using assms by (simp add: no_redispatch_def store_ok_def effects_since_def)

lemma no_redispatch_handle: "no_redispatch w (handleUnhealthyRunner e r st hook w)"
proof -
  have fresh: "outage_key (opened_outage e r st w) \<notin> outage_key ` set (outages w)"
    using next_outage_id_fresh[of _ w "repoId r" "runnerId r"]
    by (fastforce simp: outage_key_def opened_outage_def)
  have nz: "outageId (opened_outage e r st w) \<noteq> 0"
    by (simp add: opened_outage_def next_outage_id_def)
  show ?thesis
    unfolding no_redispatch_def handleUnhealthyRunner_eq
    using fresh nz
    by (auto simp: store_ok_def effects_since_def alerts_def outage_key_def alert_message_def)
qed

lemma no_redispatch_resolve: "no_redispatch w (snd (resolveOutage e rid n w))"
proof (cases "newest (outage_history w rid n)")
  case None
  then show ?thesis by (simp add: resolveOutage_unfold no_redispatch_refl)
next
  case (Some item)
  show ?thesis
  proof (cases "resolvedAt item = 0")
    case False
    then show ?thesis using Some by (simp add: resolveOutage_unfold no_redispatch_refl)
  next
    case True
    have ?thesis if ok: "store_ok w"
    proof -
      have d: "distinct (map outage_key (outages w))"
        and nz: "\<forall>ev\<in>set (outages w). outageId ev \<noteq> 0"
        using ok by (auto simp: store_ok_def)
      define xs where "xs = map (\<lambda>ev. if ev = item
          then item\<lparr>resolvedAt := clock e (ticks w)\<rparr> else ev) (outages w)"
      have k: "map outage_key xs = map outage_key (outages w)"
        unfolding xs_def by (rule map_map_same) (simp add: outage_key_def)
      have f: "map notificationSent xs = map notificationSent (outages w)"
        unfolding xs_def by (rule map_map_same) simp
      have i: "\<forall>ev\<in>set xs. outageId ev \<noteq> 0"
        unfolding xs_def using nz newest_mem[OF Some] by (auto simp: outage_history_def)
      have l: "length xs = length (outages w)" by (simp add: xs_def)
      have r: "resolveOutage e rid n w =
        (outageId item, w\<lparr>ticks := Suc (ticks w), outages := xs,
           trace := trace w @ [PutOutage (item\<lparr>resolvedAt := clock e (ticks w)\<rparr>)]\<rparr>)"
        unfolding xs_def by (rule resolveOutage_open[OF d nz Some True])
      have ok': "store_ok (snd (resolveOutage e rid n w))"
        unfolding r store_ok_def using d i k by simp
      show ?thesis
        unfolding no_redispatch_def
        using ok' k f l
        by (simp add: r effects_since_def alerts_def)
    qed
    then show ?thesis by (auto simp: no_redispatch_def)
  qed
qed

lemma no_redispatch_recovery:
  "no_redispatch w (end_world (sendSlackRecoveryNotification e hook r st oid w))"
  by (rule no_redispatch_same_outages[where d = "[SlackPost hook (recovery_message e r st oid w)
        (slack_post e hook (recovery_message e r st oid w))]"])
     (simp_all add: sendSlackRecoveryNotification_def date_now_def Let_def end_world_def
        recovery_message_def alerts_def)

lemma no_redispatch_reconcile: "no_redispatch w (end_world (reconcile e p rid remote w))"
proof (rule pass_rel_reconcile[where R = no_redispatch])
  show "no_redispatch w w" for w by (rule no_redispatch_refl)
  show "no_redispatch a c" if "no_redispatch a b" "no_redispatch b c" for a b c
    using that by (rule no_redispatch_trans)
  show "no_redispatch w (w\<lparr>ticks := Suc (ticks w)\<rparr>)" for w
    by (rule no_redispatch_same_outages[where d = "[]"]) (simp_all add: alerts_def)
  show "no_redispatch w (put_runner r w)" for r w
    by (rule no_redispatch_same_outages[where d = "[PutRunner r]"]) (simp_all add: alerts_def)
  show "no_redispatch w (handleUnhealthyRunner e r st (slackWebhook p) w)" for r st w
    by (rule no_redispatch_handle)
  show "no_redispatch w (snd (resolveOutage e rid n w))" for n w
    by (rule no_redispatch_resolve)
  show "no_redispatch w (end_world (sendSlackRecoveryNotification e (slackWebhook p) r st oid w))"
    for r st oid w
    by (rule no_redispatch_recovery)
qed





lemmas eval_defs = process_repository_def process_repository_body_def repo_owner_def repo_id_def
  date_now_def get_repository_def put_repository_def same_repository_def reconcile_def
  fetchExistingRunners_def update_existing_runner_def create_new_runner_def sweep_runner_def
  put_runner_def same_runner_def handleUnhealthyRunner_def put_outage_def same_outage_def
  next_outage_id_def outage_history_def resolveOutage_def sendSlackNotification_def
  sendSlackRecoveryNotification_def mapGitHubStatus_def array_includes_def
  UNHEALTHY_STATUSES_def truthy_def Let_def
  demo_env_def demo_params_def demo_runner_def empty_world_def open_outages_def


lemma outage_puts_append: "outage_puts (a @ b) = outage_puts a @ outage_puts b"
  by (induction a rule: outage_puts.induct) auto
















lemma effects_since_append: "trace w' = trace w @ d \<Longrightarrow> effects_since w w' = d"
  by (simp add: effects_since_def)


















lemma fetch_put_repository [simp]:
  "fetchExistingRunners (put_repository r w) rid = fetchExistingRunners w rid"
  by (simp add: fetchExistingRunners_def put_repository_def)

lemma fetch_tick [simp]:
  "fetchExistingRunners (w\<lparr>ticks := k\<rparr>) rid = fetchExistingRunners w rid"
  by (simp add: fetchExistingRunners_def)



text \<open>The runner table is keyed by name (\<open>/repo-:repoId/runner-:name\<close>) while the loop looks
  a runner up by its id. When GitHub reports a stored runner under a new name, the put
  of the update path adds a record beside the old one, which stays first for the lookup
  with its old status: both passes complete and the second opens a second outage. Hence
  the condition on names in the statement about a second pass.\<close>

lemma renamed_runner_reopens_outage:
  "(let e = demo_env [demo_runner 7 ''r1-new'' ''offline'' False] True;
        p = demo_params (Some ''https://hook'');
        w0 = empty_world\<lparr>runners := [stored_runner 7 ''r1'' RunnerStatus_IDLE]\<rparr>
    in \<exists>w1 w2. process_repository_body e p ''acme/ci'' w0 = Inr w1 \<and>
         process_repository_body e p ''acme/ci'' w1 = Inr w2 \<and>
         map name (runners w1) = [''r1'', ''r1-new''] \<and>
         map outageId (outages w1) = [1] \<and> map outageId (outages w2) = [1, 2])"
proof -
  define w1 :: world where "w1 =
      \<lparr>repositories = [\<lparr>rp_repoId = ''ci'', rp_owner = ''acme'', rp_name =
      ''ci'', isActive = True, lastSyncedAt = 1000\<rparr>], runners = [\<lparr>runnerId = 7,
      repoId = ''ci'', name = ''r1'', status = RunnerStatus_IDLE, enabled = True, os =
      ''linux'', labels = [''self-hosted''], lastSeenAt = 900, firstSeenAt = 800\<rparr>,
      \<lparr>runnerId = 7, repoId = ''ci'', name = ''r1-new'', status = RunnerStatus_OFFLINE,
      enabled = True, os = ''linux'', labels = [''self-hosted''], lastSeenAt = 1001,
      firstSeenAt = 800\<rparr>], outages = [\<lparr>outageId = 1, o_repoId = ''ci'',
      o_runnerId = 7, runnerName = ''r1-new'', o_status = RunnerStatus_OFFLINE, startedAt =
      1002, resolvedAt = 0, description = ''Runner r1-new entered Offline state'',
      notificationSent = True\<rparr>], ticks = 4, trace = [PutRepository \<lparr>rp_repoId =
      ''ci'', rp_owner = ''acme'', rp_name = ''ci'', isActive = True, lastSyncedAt =
      1000\<rparr>, PutRunner \<lparr>runnerId = 7, repoId = ''ci'', name = ''r1-new'', status
      = RunnerStatus_OFFLINE, enabled = True, os = ''linux'', labels = [''self-hosted''],
      lastSeenAt = 1001, firstSeenAt = 800\<rparr>, PutOutage \<lparr>outageId = 1, o_repoId =
      ''ci'', o_runnerId = 7, runnerName = ''r1-new'', o_status = RunnerStatus_OFFLINE,
      startedAt = 1002, resolvedAt = 0, description = ''Runner r1-new entered Offline state'',
      notificationSent = False\<rparr>, SlackPost (Some ''https://hook'') \<lparr>m_kind =
      Alert, m_repoId = ''ci'', m_runner = ''r1-new'', m_status = ''Offline'', m_outageId = 1,
      m_at = 1003\<rparr> True, PutOutage \<lparr>outageId = 1, o_repoId = ''ci'', o_runnerId
      = 7, runnerName = ''r1-new'', o_status = RunnerStatus_OFFLINE, startedAt = 1002,
      resolvedAt = 0, description = ''Runner r1-new entered Offline state'', notificationSent
      = True\<rparr>]\<rparr>"
  have 1: "process_repository_body (demo_env [demo_runner 7 ''r1-new'' ''offline'' False] True)
             (demo_params (Some ''https://hook'')) ''acme/ci''
             (empty_world\<lparr>runners := [stored_runner 7 ''r1'' RunnerStatus_IDLE]\<rparr>) = Inr w1"
    by (simp add: eval_defs stored_runner_def w1_def)
  obtain w2 where 2: "process_repository_body
             (demo_env [demo_runner 7 ''r1-new'' ''offline'' False] True)
             (demo_params (Some ''https://hook'')) ''acme/ci'' w1 = Inr w2"
    and 3: "map outageId (outages w2) = [1, 2]"
    by (simp add: eval_defs w1_def)
  have 4: "map name (runners w1) = [''r1'', ''r1-new'']" "map outageId (outages w1) = [1]"
    by (simp_all add: w1_def)
  show ?thesis unfolding Let_def
    by (rule exI[of _ w1], rule exI[of _ w2]) (intro conjI 1 2 3 4)
qed

section \<open>The claims\<close>

text \<open>
  C6. The status classifier has no error path: a runner whose raw state is not the string
  "online" is OFFLINE; an online runner is BUSY when it is busy and IDLE when it is not.
  The unhealthy statuses are exactly OFFLINE and UNKNOWN.
\<close>

theorem C6_status_classifier:
  "(gh_status g \<noteq> ''online'' \<longrightarrow> mapGitHubStatus g = RunnerStatus_OFFLINE) \<and>
   (gh_status g = ''online'' \<and> gh_busy g \<longrightarrow> mapGitHubStatus g = RunnerStatus_BUSY) \<and>
   (gh_status g = ''online'' \<and> \<not> gh_busy g \<longrightarrow> mapGitHubStatus g = RunnerStatus_IDLE) \<and>
   (array_includes UNHEALTHY_STATUSES s \<longleftrightarrow>
      s = RunnerStatus_OFFLINE \<or> s = RunnerStatus_UNKNOWN) \<and>
   set UNHEALTHY_STATUSES = {RunnerStatus_OFFLINE, RunnerStatus_UNKNOWN}"
  by (auto simp: mapGitHubStatus_def array_includes_def UNHEALTHY_STATUSES_def)

theorem C6_status_classifier_witness:
  "mapGitHubStatus (demo_runner 7 ''r1'' ''offline'' True) = RunnerStatus_OFFLINE \<and>
   mapGitHubStatus (demo_runner 7 ''r1'' ''online'' True) = RunnerStatus_BUSY \<and>
   mapGitHubStatus (demo_runner 7 ''r1'' ''online'' False) = RunnerStatus_IDLE \<and>
   array_includes UNHEALTHY_STATUSES RunnerStatus_UNKNOWN \<and>
   \<not> array_includes UNHEALTHY_STATUSES RunnerStatus_ONLINE"
  using
    C6_status_classifier [of "demo_runner 7 ''r1'' ''offline'' True" RunnerStatus_UNKNOWN]
    C6_status_classifier [of "demo_runner 7 ''r1'' ''online'' True" RunnerStatus_ONLINE]
    C6_status_classifier [of "demo_runner 7 ''r1'' ''online'' False" RunnerStatus_ONLINE]
  by (simp add: demo_runner_def)



text \<open>
  C10. A stored runner goes from an unhealthy to a healthy status while its history has no
  open outage (the history is empty, or its newest item is resolved): \<open>resolveOutage\<close>
  writes nothing and returns 0, and with a webhook configured the recovery message is
  posted all the same, carrying the outage id 0.
\<close>

theorem C10_recovery_without_open_outage:
  assumes "find (\<lambda>r. runnerId r = gh_id g) existingRunners = Some old"
    and "array_includes UNHEALTHY_STATUSES (status old)"
    and "\<not> array_includes UNHEALTHY_STATUSES (mapGitHubStatus g)"
    and "newest (outage_history w rid (gh_id g)) = None \<or>
         (\<exists>item. newest (outage_history w rid (gh_id g)) = Some item \<and> resolvedAt item \<noteq> 0)"
    and "truthy (slackWebhook p)"
  shows
    "(let r = observed_runner e g old w;
          w2 = put_runner r (w\<lparr>ticks := Suc (ticks w)\<rparr>);
          msg = recovery_message e r (mapGitHubStatus g) 0 w2;
          ok = slack_post e (slackWebhook p) msg;
          w' = final_world (process_runners e p rid [g] existingRunners pr w)
      in resolveOutage e rid (gh_id g) w2 = (0, w2) \<and>
         m_kind msg = Recovery \<and> m_outageId msg = 0 \<and>
         outages w' = outages w \<and>
         trace w' = trace w @ [PutRunner r, SlackPost (slackWebhook p) msg ok])"
proof -
  define r where "r = observed_runner e g old w"
  define w2 where "w2 = put_runner r (w\<lparr>ticks := Suc (ticks w)\<rparr>)"
  have n: "resolveOutage e rid (gh_id g) w2 = (0, w2)"
    by (rule resolveOutage_nothing_open) (use assms(4) in \<open>simp add: w2_def\<close>)
  have u: "update_existing_runner e p rid g old w =
     (case sendSlackRecoveryNotification e (slackWebhook p) r (mapGitHubStatus g) 0 w2 of
        Inl err \<Rightarrow> Inl err | Inr w5 \<Rightarrow> Inr (r, w5))"
    unfolding update_existing_runner_unfold Let_def r_def[symmetric] w2_def[symmetric]
    using assms(2,3,5) n by simp
  show ?thesis
    unfolding process_runners_single_found[OF assms(1)] u Let_def r_def[symmetric]
      w2_def[symmetric] n
    by (simp add: final_world_def sendSlackRecoveryNotification_def date_now_def Let_def
        recovery_message_def w2_def)
qed

text \<open>
  C4. \<open>resolveOutage\<close> looks at one item only, the one with the largest id in the history of
  the runner. When that item has no \<open>resolvedAt\<close>, it is written back with
  \<open>resolvedAt\<close> set to the clock reading and its id is returned; every other item of the
  table stays as it was. When it is resolved already, or the history is empty, the state is
  unchanged and 0 is returned. On a transition from unhealthy to healthy the step of the
  loop changes the outages exactly as \<open>resolveOutage\<close> does. The store holds one item per
  key path and ids from the sequence, which start at 1.
\<close>

theorem C4_resolve_most_recent_only:
  assumes "distinct (map outage_key (outages w))"
    and "\<forall>ev\<in>set (outages w). outageId ev \<noteq> 0"
  shows
    "(\<forall>item. newest (outage_history w rid n) = Some item \<longrightarrow>
        item \<in> set (outage_history w rid n) \<and>
        (\<forall>ev\<in>set (outage_history w rid n). outageId ev \<le> outageId item) \<and>
        (resolvedAt item = 0 \<longrightarrow>
           resolveOutage e rid n w =
             (outageId item,
              w\<lparr>ticks := Suc (ticks w),
                outages := map (\<lambda>ev. if ev = item
                                      then item\<lparr>resolvedAt := clock e (ticks w)\<rparr> else ev)
                             (outages w),
                trace := trace w @ [PutOutage (item\<lparr>resolvedAt := clock e (ticks w)\<rparr>)]\<rparr>)) \<and>
        (resolvedAt item \<noteq> 0 \<longrightarrow> resolveOutage e rid n w = (0, w))) \<and>
     (newest (outage_history w rid n) = None \<longrightarrow> resolveOutage e rid n w = (0, w)) \<and>
     (find (\<lambda>r. runnerId r = gh_id g) existingRunners = Some old \<and>
      array_includes UNHEALTHY_STATUSES (status old) \<and>
      \<not> array_includes UNHEALTHY_STATUSES (mapGitHubStatus g) \<longrightarrow>
        outages (final_world (process_runners e p rid [g] existingRunners pr w)) =
        outages (snd (resolveOutage e rid (gh_id g) (w\<lparr>ticks := Suc (ticks w)\<rparr>))))"
proof -
  have 1: "item \<in> set (outage_history w rid n) \<and>
        (\<forall>ev\<in>set (outage_history w rid n). outageId ev \<le> outageId item) \<and>
        (resolvedAt item = 0 \<longrightarrow>
           resolveOutage e rid n w =
             (outageId item,
              w\<lparr>ticks := Suc (ticks w),
                outages := map (\<lambda>ev. if ev = item
                                      then item\<lparr>resolvedAt := clock e (ticks w)\<rparr> else ev)
                             (outages w),
                trace := trace w @ [PutOutage (item\<lparr>resolvedAt := clock e (ticks w)\<rparr>)]\<rparr>)) \<and>
        (resolvedAt item \<noteq> 0 \<longrightarrow> resolveOutage e rid n w = (0, w))"
    if "newest (outage_history w rid n) = Some item" for item
    using that newest_mem[OF that] newest_max[OF that] resolveOutage_open[OF assms that]
      resolveOutage_nothing_open[of w rid n e]
    by auto
  have 2: "newest (outage_history w rid n) = None \<longrightarrow> resolveOutage e rid n w = (0, w)"
    by (simp add: resolveOutage_nothing_open)
  have 3: "outages (final_world (process_runners e p rid [g] existingRunners pr w)) =
        outages (snd (resolveOutage e rid (gh_id g) (w\<lparr>ticks := Suc (ticks w)\<rparr>)))"
    if f: "find (\<lambda>r. runnerId r = gh_id g) existingRunners = Some old"
      and u: "array_includes UNHEALTHY_STATUSES (status old)"
      and h: "\<not> array_includes UNHEALTHY_STATUSES (mapGitHubStatus g)"
  proof -
    define r where "r = observed_runner e g old w"
    define w2 where "w2 = put_runner r (w\<lparr>ticks := Suc (ticks w)\<rparr>)"
    define w4 where "w4 = snd (resolveOutage e rid (gh_id g) w2)"
    define oid where "oid = fst (resolveOutage e rid (gh_id g) w2)"
    have u': "update_existing_runner e p rid g old w =
      (if truthy (slackWebhook p)
       then (case sendSlackRecoveryNotification e (slackWebhook p) r (mapGitHubStatus g) oid w4 of
               Inl err \<Rightarrow> Inl err | Inr w5 \<Rightarrow> Inr (r, w5))
       else Inr (r, w4))"
      unfolding update_existing_runner_unfold Let_def r_def[symmetric] w2_def[symmetric]
        w4_def oid_def
      using u h by simp
    have "outages (final_world (process_runners e p rid [g] existingRunners pr w)) = outages w4"
      unfolding process_runners_single_found[OF f] u'
      by (simp add: final_world_def sendSlackRecoveryNotification_def date_now_def Let_def)
    then show ?thesis
      by (simp add: w4_def w2_def resolveOutage_put_runner)
  qed
  show ?thesis using 1 2 3 by blast
qed

theorem C10_recovery_without_open_outage_witness:
  "find (\<lambda>r. runnerId r = gh_id (demo_runner 7 ''r1'' ''online'' False))
     [stored_runner 7 ''r1'' RunnerStatus_OFFLINE] =
     Some (stored_runner 7 ''r1'' RunnerStatus_OFFLINE) \<and>
   array_includes UNHEALTHY_STATUSES (status (stored_runner 7 ''r1'' RunnerStatus_OFFLINE)) \<and>
   \<not> array_includes UNHEALTHY_STATUSES (mapGitHubStatus (demo_runner 7 ''r1'' ''online'' False)) \<and>
   newest (outage_history (empty_world\<lparr>outages := [stored_outage 1 500]\<rparr>) ''ci'' 7) =
     Some (stored_outage 1 500) \<and>
   resolvedAt (stored_outage 1 500) \<noteq> 0 \<and>
   truthy (slackWebhook (demo_params (Some ''https://hook''))) \<and>
   (let w' = final_world (process_runners (demo_env [] True) (demo_params (Some ''https://hook''))
        ''ci'' [demo_runner 7 ''r1'' ''online'' False]
        [stored_runner 7 ''r1'' RunnerStatus_OFFLINE] {}
        (empty_world\<lparr>outages := [stored_outage 1 500]\<rparr>))
    in outages w' = [stored_outage 1 500] \<and>
       slack_posts (trace w') =
         [\<lparr>m_kind = Recovery, m_repoId = ''ci'', m_runner = ''r1'', m_status = ''Idle'',
           m_outageId = 0, m_at = 1001\<rparr>])"
proof -
  have f: "find (\<lambda>r. runnerId r = gh_id (demo_runner 7 ''r1'' ''online'' False))
     [stored_runner 7 ''r1'' RunnerStatus_OFFLINE] =
     Some (stored_runner 7 ''r1'' RunnerStatus_OFFLINE)"
    by (simp add: demo_runner_def stored_runner_def)
  have u: "array_includes UNHEALTHY_STATUSES (status (stored_runner 7 ''r1'' RunnerStatus_OFFLINE))"
    by (simp add: array_includes_def UNHEALTHY_STATUSES_def stored_runner_def)
  have h: "\<not> array_includes UNHEALTHY_STATUSES
             (mapGitHubStatus (demo_runner 7 ''r1'' ''online'' False))"
    by (simp add: array_includes_def UNHEALTHY_STATUSES_def mapGitHubStatus_def demo_runner_def)
  have n: "newest (outage_history (empty_world\<lparr>outages := [stored_outage 1 500]\<rparr>) ''ci'' 7) =
     Some (stored_outage 1 500)"
    by (simp add: outage_history_def empty_world_def stored_outage_def)
  have r: "resolvedAt (stored_outage 1 500) \<noteq> 0" by (simp add: stored_outage_def)
  have n': "newest (outage_history (empty_world\<lparr>outages := [stored_outage 1 500]\<rparr>) ''ci''
               (gh_id (demo_runner 7 ''r1'' ''online'' False))) = None \<or>
         (\<exists>item. newest (outage_history (empty_world\<lparr>outages := [stored_outage 1 500]\<rparr>) ''ci''
               (gh_id (demo_runner 7 ''r1'' ''online'' False))) = Some item \<and>
               resolvedAt item \<noteq> 0)"
    using n r by (simp add: demo_runner_def)
  have t: "truthy (slackWebhook (demo_params (Some ''https://hook'')))"
    by (simp add: truthy_def demo_params_def)
  show ?thesis
    using f u h n r t
      C10_recovery_without_open_outage [OF f u h n' t, where e = "demo_env [] True" and pr = "{}"]
    by (simp add: Let_def recovery_message_def observed_runner_def mapGitHubStatus_def
        demo_runner_def stored_runner_def demo_env_def empty_world_def)
qed

theorem C4_resolve_most_recent_only_witness:
  "distinct (map outage_key [stored_outage 1 500, stored_outage 2 0]) \<and>
   outageId (stored_outage 1 500) \<noteq> 0 \<and> outageId (stored_outage 2 0) \<noteq> 0 \<and>
   newest (outage_history (empty_world\<lparr>outages := [stored_outage 1 500, stored_outage 2 0]\<rparr>)
      ''ci'' 7) = Some (stored_outage 2 0) \<and>
   resolvedAt (stored_outage 2 0) = 0 \<and>
   resolveOutage (demo_env [] True) ''ci'' 7
      (empty_world\<lparr>outages := [stored_outage 1 500, stored_outage 2 0]\<rparr>) =
     (2, empty_world\<lparr>ticks := 1, outages := [stored_outage 1 500, stored_outage 2 1000],
           trace := [PutOutage (stored_outage 2 1000)]\<rparr>) \<and>
   newest (outage_history (empty_world\<lparr>outages := [stored_outage 1 500]\<rparr>) ''ci'' 7) =
      Some (stored_outage 1 500) \<and>
   resolvedAt (stored_outage 1 500) \<noteq> 0 \<and>
   resolveOutage (demo_env [] True) ''ci'' 7 (empty_world\<lparr>outages := [stored_outage 1 500]\<rparr>) =
     (0, empty_world\<lparr>outages := [stored_outage 1 500]\<rparr>) \<and>
   newest (outage_history empty_world ''ci'' 7) = None \<and>
   resolveOutage (demo_env [] True) ''ci'' 7 empty_world = (0, empty_world) \<and>
   find (\<lambda>r. runnerId r = gh_id (demo_runner 7 ''r1'' ''online'' False))
     [stored_runner 7 ''r1'' RunnerStatus_OFFLINE] =
     Some (stored_runner 7 ''r1'' RunnerStatus_OFFLINE) \<and>
   array_includes UNHEALTHY_STATUSES (status (stored_runner 7 ''r1'' RunnerStatus_OFFLINE)) \<and>
   \<not> array_includes UNHEALTHY_STATUSES (mapGitHubStatus (demo_runner 7 ''r1'' ''online'' False)) \<and>
   outages (final_world (process_runners (demo_env [] True) (demo_params None)
        ''ci'' [demo_runner 7 ''r1'' ''online'' False]
        [stored_runner 7 ''r1'' RunnerStatus_OFFLINE] {}
        (empty_world\<lparr>outages := [stored_outage 1 500, stored_outage 2 0]\<rparr>))) =
     [stored_outage 1 500, stored_outage 2 1001]"
proof -
  let ?w2 = "empty_world\<lparr>outages := [stored_outage 1 500, stored_outage 2 0]\<rparr>"
  let ?w1 = "empty_world\<lparr>outages := [stored_outage 1 500]\<rparr>"
  let ?e = "demo_env [] True"
  have d2: "distinct (map outage_key (outages ?w2))"
    and z2: "\<forall>ev\<in>set (outages ?w2). outageId ev \<noteq> 0"
    and d1: "distinct (map outage_key (outages ?w1))"
    and z1: "\<forall>ev\<in>set (outages ?w1). outageId ev \<noteq> 0"
    and d0: "distinct (map outage_key (outages empty_world))"
    and z0: "\<forall>ev\<in>set (outages empty_world). outageId ev \<noteq> 0"
    by (simp_all add: empty_world_def stored_outage_def outage_key_def)
  have n2: "newest (outage_history ?w2 ''ci'' 7) = Some (stored_outage 2 0)"
    and n1: "newest (outage_history ?w1 ''ci'' 7) = Some (stored_outage 1 500)"
    and n0: "newest (outage_history empty_world ''ci'' 7) = None"
    by (simp_all add: outage_history_def empty_world_def stored_outage_def)
  have r2: "resolvedAt (stored_outage 2 0) = 0" and r1: "resolvedAt (stored_outage 1 500) \<noteq> 0"
    by (simp_all add: stored_outage_def)
  have f: "find (\<lambda>r. runnerId r = gh_id (demo_runner 7 ''r1'' ''online'' False))
     [stored_runner 7 ''r1'' RunnerStatus_OFFLINE] =
     Some (stored_runner 7 ''r1'' RunnerStatus_OFFLINE)"
    by (simp add: demo_runner_def stored_runner_def)
  have u: "array_includes UNHEALTHY_STATUSES (status (stored_runner 7 ''r1'' RunnerStatus_OFFLINE))"
    by (simp add: array_includes_def UNHEALTHY_STATUSES_def stored_runner_def)
  have h: "\<not> array_includes UNHEALTHY_STATUSES
             (mapGitHubStatus (demo_runner 7 ''r1'' ''online'' False))"
    by (simp add: array_includes_def UNHEALTHY_STATUSES_def mapGitHubStatus_def demo_runner_def)
  note a = C4_resolve_most_recent_only [OF d2 z2, where rid = "''ci''" and n = 7 and e = ?e]
  have a1: "resolveOutage ?e ''ci'' 7 ?w2 =
     (2, empty_world\<lparr>ticks := 1, outages := [stored_outage 1 500, stored_outage 2 1000],
           trace := [PutOutage (stored_outage 2 1000)]\<rparr>)"
    using a [THEN conjunct1, rule_format, OF n2, THEN conjunct2, THEN conjunct2, THEN conjunct1,
        rule_format, OF r2]
    by (simp add: empty_world_def stored_outage_def demo_env_def)
  have b1: "resolveOutage ?e ''ci'' 7 ?w1 = (0, ?w1)"
    using C4_resolve_most_recent_only [OF d1 z1, where rid = "''ci''" and n = 7 and e = ?e,
        THEN conjunct1, rule_format, OF n1, THEN conjunct2, THEN conjunct2, THEN conjunct2,
        rule_format, OF r1] .
  have c1: "resolveOutage ?e ''ci'' 7 empty_world = (0, empty_world)"
    using C4_resolve_most_recent_only [OF d0 z0, where rid = "''ci''" and n = 7 and e = ?e,
        THEN conjunct2, THEN conjunct1, rule_format, OF n0] .
  have s1: "outages (final_world (process_runners ?e (demo_params None)
        ''ci'' [demo_runner 7 ''r1'' ''online'' False]
        [stored_runner 7 ''r1'' RunnerStatus_OFFLINE] {} ?w2)) =
     outages (snd (resolveOutage ?e ''ci'' (gh_id (demo_runner 7 ''r1'' ''online'' False))
        (?w2\<lparr>ticks := Suc (ticks ?w2)\<rparr>)))"
    using C4_resolve_most_recent_only [OF d2 z2, where e = ?e,
        THEN conjunct2, THEN conjunct2, rule_format, OF conjI [OF f conjI [OF u h]]] .
  have s2: "outages (snd (resolveOutage ?e ''ci'' (gh_id (demo_runner 7 ''r1'' ''online'' False))
        (?w2\<lparr>ticks := Suc (ticks ?w2)\<rparr>))) = [stored_outage 1 500, stored_outage 2 1001]"
    by (simp add: resolveOutage_unfold outage_history_def empty_world_def stored_outage_def
        demo_runner_def demo_env_def put_outage_def same_outage_def Let_def)
  have z: "outageId (stored_outage 1 500) \<noteq> 0" "outageId (stored_outage 2 0) \<noteq> 0"
    by (simp_all add: stored_outage_def)
  show ?thesis
    using d2 z n2 r2 a1 n1 r1 b1 n0 c1 f u h s1 s2
    by (simp add: empty_world_def)
qed








text \<open>
  C1. The invariant (at most one open OutageEvent per repository and runner) is not
  preserved by a pass. Two passes from the empty store (the runner is reported online, then
  it is not reported) lead to \<open>swept_world\<close>: the runner is UNKNOWN and has one open outage,
  so the invariant holds. In the next pass GitHub reports the runner as offline: the test
  \<open>status !== oldStatus\<close> of the update path lets \<open>handleUnhealthyRunner\<close> open a second
  outage while the first is still open. When the runner comes back online, \<open>resolveOutage\<close>
  closes the newest one only, and outage 1 stays open for a healthy runner.
\<close>

theorem C1_second_open_outage_after_unknown_to_offline:
  "(process_repository (demo_env [] True) (demo_params (Some ''https://hook'')) ''acme/ci''
      (process_repository (demo_env [demo_runner 7 ''r1'' ''online'' False] True)
         (demo_params (Some ''https://hook'')) ''acme/ci'' empty_world))\<lparr>trace := []\<rparr>
     = swept_world \<and>
   (\<forall>rid n. length (open_outages swept_world rid n) \<le> 1) \<and>
   map (\<lambda>ev. (outageId ev, o_status ev, resolvedAt ev))
     (open_outages
        (process_repository (demo_env [demo_runner 7 ''r1'' ''offline'' False] True)
           (demo_params (Some ''https://hook'')) ''acme/ci'' swept_world) ''ci'' 7)
     = [(1, RunnerStatus_UNKNOWN, 0), (2, RunnerStatus_OFFLINE, 0)] \<and>
   map (\<lambda>ev. (outageId ev, o_status ev, resolvedAt ev))
     (open_outages
        (process_repository (demo_env [demo_runner 7 ''r1'' ''online'' False] True)
           (demo_params (Some ''https://hook'')) ''acme/ci''
           (process_repository (demo_env [demo_runner 7 ''r1'' ''offline'' False] True)
              (demo_params (Some ''https://hook'')) ''acme/ci'' swept_world)) ''ci'' 7)
     = [(1, RunnerStatus_UNKNOWN, 0)] \<and>
   map status (runners
        (process_repository (demo_env [demo_runner 7 ''r1'' ''online'' False] True)
           (demo_params (Some ''https://hook'')) ''acme/ci''
           (process_repository (demo_env [demo_runner 7 ''r1'' ''offline'' False] True)
              (demo_params (Some ''https://hook'')) ''acme/ci'' swept_world)))
     = [RunnerStatus_IDLE]"
proof -
  define w1 :: world where "w1 =
      \<lparr>repositories = [\<lparr>rp_repoId = ''ci'', rp_owner = ''acme'', rp_name =
      ''ci'', isActive = True, lastSyncedAt = 1000\<rparr>], runners = [\<lparr>runnerId = 7,
      repoId = ''ci'', name = ''r1'', status = RunnerStatus_IDLE, enabled = True, os =
      ''linux'', labels = [''self-hosted''], lastSeenAt = 1001, firstSeenAt = 1001\<rparr>],
      outages = [], ticks = 2, trace = [PutRepository \<lparr>rp_repoId = ''ci'', rp_owner =
      ''acme'', rp_name = ''ci'', isActive = True, lastSyncedAt = 1000\<rparr>, PutRunner
      \<lparr>runnerId = 7, repoId = ''ci'', name = ''r1'', status = RunnerStatus_IDLE,
      enabled = True, os = ''linux'', labels = [''self-hosted''], lastSeenAt = 1001,
      firstSeenAt = 1001\<rparr>]\<rparr>"
  define w2 :: world where "w2 =
      \<lparr>repositories = [\<lparr>rp_repoId = ''ci'', rp_owner = ''acme'', rp_name =
      ''ci'', isActive = True, lastSyncedAt = 1002\<rparr>], runners = [\<lparr>runnerId = 7,
      repoId = ''ci'', name = ''r1'', status = RunnerStatus_UNKNOWN, enabled = True, os =
      ''linux'', labels = [''self-hosted''], lastSeenAt = 1001, firstSeenAt = 1001\<rparr>],
      outages = [\<lparr>outageId = 1, o_repoId = ''ci'', o_runnerId = 7, runnerName = ''r1'',
      o_status = RunnerStatus_UNKNOWN, startedAt = 1003, resolvedAt = 0, description =
      ''Runner r1 entered Unknown state'', notificationSent = True\<rparr>], ticks = 5, trace
      = [PutRepository \<lparr>rp_repoId = ''ci'', rp_owner = ''acme'', rp_name = ''ci'',
      isActive = True, lastSyncedAt = 1000\<rparr>, PutRunner \<lparr>runnerId = 7, repoId =
      ''ci'', name = ''r1'', status = RunnerStatus_IDLE, enabled = True, os = ''linux'',
      labels = [''self-hosted''], lastSeenAt = 1001, firstSeenAt = 1001\<rparr>, PutRepository
      \<lparr>rp_repoId = ''ci'', rp_owner = ''acme'', rp_name = ''ci'', isActive = True,
      lastSyncedAt = 1002\<rparr>, PutRunner \<lparr>runnerId = 7, repoId = ''ci'', name =
      ''r1'', status = RunnerStatus_UNKNOWN, enabled = True, os = ''linux'', labels =
      [''self-hosted''], lastSeenAt = 1001, firstSeenAt = 1001\<rparr>, PutOutage
      \<lparr>outageId = 1, o_repoId = ''ci'', o_runnerId = 7, runnerName = ''r1'', o_status =
      RunnerStatus_UNKNOWN, startedAt = 1003, resolvedAt = 0, description =
      ''Runner r1 entered Unknown state'', notificationSent = False\<rparr>, SlackPost (Some
      ''https://hook'') \<lparr>m_kind = Alert, m_repoId = ''ci'', m_runner = ''r1'', m_status
      = ''Unknown'', m_outageId = 1, m_at = 1004\<rparr> True, PutOutage \<lparr>outageId = 1,
      o_repoId = ''ci'', o_runnerId = 7, runnerName = ''r1'', o_status = RunnerStatus_UNKNOWN,
      startedAt = 1003, resolvedAt = 0, description = ''Runner r1 entered Unknown state'',
      notificationSent = True\<rparr>]\<rparr>"
  define w3 :: world where "w3 =
      \<lparr>repositories = [\<lparr>rp_repoId = ''ci'', rp_owner = ''acme'', rp_name =
      ''ci'', isActive = True, lastSyncedAt = 1005\<rparr>], runners = [\<lparr>runnerId = 7,
      repoId = ''ci'', name = ''r1'', status = RunnerStatus_OFFLINE, enabled = True, os =
      ''linux'', labels = [''self-hosted''], lastSeenAt = 1006, firstSeenAt = 1001\<rparr>],
      outages = [\<lparr>outageId = 1, o_repoId = ''ci'', o_runnerId = 7, runnerName = ''r1'',
      o_status = RunnerStatus_UNKNOWN, startedAt = 1003, resolvedAt = 0, description =
      ''Runner r1 entered Unknown state'', notificationSent = True\<rparr>, \<lparr>outageId =
      2, o_repoId = ''ci'', o_runnerId = 7, runnerName = ''r1'', o_status =
      RunnerStatus_OFFLINE, startedAt = 1007, resolvedAt = 0, description =
      ''Runner r1 entered Offline state'', notificationSent = True\<rparr>], ticks = 9, trace
      = [PutRepository \<lparr>rp_repoId = ''ci'', rp_owner = ''acme'', rp_name = ''ci'',
      isActive = True, lastSyncedAt = 1005\<rparr>, PutRunner \<lparr>runnerId = 7, repoId =
      ''ci'', name = ''r1'', status = RunnerStatus_OFFLINE, enabled = True, os = ''linux'',
      labels = [''self-hosted''], lastSeenAt = 1006, firstSeenAt = 1001\<rparr>, PutOutage
      \<lparr>outageId = 2, o_repoId = ''ci'', o_runnerId = 7, runnerName = ''r1'', o_status =
      RunnerStatus_OFFLINE, startedAt = 1007, resolvedAt = 0, description =
      ''Runner r1 entered Offline state'', notificationSent = False\<rparr>, SlackPost (Some
      ''https://hook'') \<lparr>m_kind = Alert, m_repoId = ''ci'', m_runner = ''r1'', m_status
      = ''Offline'', m_outageId = 2, m_at = 1008\<rparr> True, PutOutage \<lparr>outageId = 2,
      o_repoId = ''ci'', o_runnerId = 7, runnerName = ''r1'', o_status = RunnerStatus_OFFLINE,
      startedAt = 1007, resolvedAt = 0, description = ''Runner r1 entered Offline state'',
      notificationSent = True\<rparr>]\<rparr>"
  define w4 :: world where "w4 =
      \<lparr>repositories = [\<lparr>rp_repoId = ''ci'', rp_owner = ''acme'', rp_name =
      ''ci'', isActive = True, lastSyncedAt = 1009\<rparr>], runners = [\<lparr>runnerId = 7,
      repoId = ''ci'', name = ''r1'', status = RunnerStatus_IDLE, enabled = True, os =
      ''linux'', labels = [''self-hosted''], lastSeenAt = 1010, firstSeenAt = 1001\<rparr>],
      outages = [\<lparr>outageId = 1, o_repoId = ''ci'', o_runnerId = 7, runnerName = ''r1'',
      o_status = RunnerStatus_UNKNOWN, startedAt = 1003, resolvedAt = 0, description =
      ''Runner r1 entered Unknown state'', notificationSent = True\<rparr>, \<lparr>outageId =
      2, o_repoId = ''ci'', o_runnerId = 7, runnerName = ''r1'', o_status =
      RunnerStatus_OFFLINE, startedAt = 1007, resolvedAt = 1011, description =
      ''Runner r1 entered Offline state'', notificationSent = True\<rparr>], ticks = 13, trace
      = [PutRepository \<lparr>rp_repoId = ''ci'', rp_owner = ''acme'', rp_name = ''ci'',
      isActive = True, lastSyncedAt = 1005\<rparr>, PutRunner \<lparr>runnerId = 7, repoId =
      ''ci'', name = ''r1'', status = RunnerStatus_OFFLINE, enabled = True, os = ''linux'',
      labels = [''self-hosted''], lastSeenAt = 1006, firstSeenAt = 1001\<rparr>, PutOutage
      \<lparr>outageId = 2, o_repoId = ''ci'', o_runnerId = 7, runnerName = ''r1'', o_status =
      RunnerStatus_OFFLINE, startedAt = 1007, resolvedAt = 0, description =
      ''Runner r1 entered Offline state'', notificationSent = False\<rparr>, SlackPost (Some
      ''https://hook'') \<lparr>m_kind = Alert, m_repoId = ''ci'', m_runner = ''r1'', m_status
      = ''Offline'', m_outageId = 2, m_at = 1008\<rparr> True, PutOutage \<lparr>outageId = 2,
      o_repoId = ''ci'', o_runnerId = 7, runnerName = ''r1'', o_status = RunnerStatus_OFFLINE,
      startedAt = 1007, resolvedAt = 0, description = ''Runner r1 entered Offline state'',
      notificationSent = True\<rparr>, PutRepository \<lparr>rp_repoId = ''ci'', rp_owner =
      ''acme'', rp_name = ''ci'', isActive = True, lastSyncedAt = 1009\<rparr>, PutRunner
      \<lparr>runnerId = 7, repoId = ''ci'', name = ''r1'', status = RunnerStatus_IDLE,
      enabled = True, os = ''linux'', labels = [''self-hosted''], lastSeenAt = 1010,
      firstSeenAt = 1001\<rparr>, PutOutage \<lparr>outageId = 2, o_repoId = ''ci'',
      o_runnerId = 7, runnerName = ''r1'', o_status = RunnerStatus_OFFLINE, startedAt = 1007,
      resolvedAt = 1011, description = ''Runner r1 entered Offline state'', notificationSent =
      True\<rparr>, SlackPost (Some ''https://hook'') \<lparr>m_kind = Recovery, m_repoId =
      ''ci'', m_runner = ''r1'', m_status = ''Idle'', m_outageId = 2, m_at = 1012\<rparr>
      True]\<rparr>"
  have 1: "process_repository (demo_env [demo_runner 7 ''r1'' ''online'' False] True)
         (demo_params (Some ''https://hook'')) ''acme/ci'' empty_world = w1"
    by (simp add: eval_defs w1_def)
  have 2: "process_repository (demo_env [] True) (demo_params (Some ''https://hook''))
         ''acme/ci'' w1 = w2"
    by (simp add: eval_defs w1_def w2_def)
  have 3: "process_repository (demo_env [demo_runner 7 ''r1'' ''offline'' False] True)
           (demo_params (Some ''https://hook'')) ''acme/ci'' swept_world = w3"
    by (simp add: eval_defs swept_world_def w3_def)
  have 4: "process_repository (demo_env [demo_runner 7 ''r1'' ''online'' False] True)
           (demo_params (Some ''https://hook'')) ''acme/ci'' w3 = w4"
    by (simp add: eval_defs w3_def w4_def)
  have a: "w2\<lparr>trace := []\<rparr> = swept_world" by (simp add: w2_def swept_world_def)
  have b: "\<forall>rid n. length (open_outages swept_world rid n) \<le> 1"
    by (simp add: open_outages_def outage_history_def swept_world_def)
  have c: "map (\<lambda>ev. (outageId ev, o_status ev, resolvedAt ev)) (open_outages w3 ''ci'' 7)
     = [(1, RunnerStatus_UNKNOWN, 0), (2, RunnerStatus_OFFLINE, 0)]"
    by (simp add: open_outages_def outage_history_def w3_def)
  have d: "map (\<lambda>ev. (outageId ev, o_status ev, resolvedAt ev)) (open_outages w4 ''ci'' 7)
     = [(1, RunnerStatus_UNKNOWN, 0)]"
    "map status (runners w4) = [RunnerStatus_IDLE]"
    by (simp_all add: open_outages_def outage_history_def w4_def)
  show ?thesis unfolding 1 2 3 4 using a b c d by blast
qed






end
